theory Spec2Isabelle
  imports Complex_Main "HOL-Library.Char_ord" "HOL-Library.List_Lexorder" "HOL-Library.Log_Nat"
begin

section \<open>Python numerics\<close>

text \<open>
  In the scorers, the transformer and the attribution engine, Python floats are modelled
  as real numbers with exact arithmetic, Python ints as \<open>int\<close>. \<open>math.exp\<close>, \<open>math.log\<close>
  and the square root of \<open>statistics.stdev\<close> are the real functions \<open>exp\<close>, \<open>ln\<close> and
  \<open>sqrt\<close>. Not-a-number and infinities are outside this part of the model.

  \<open>round(x)\<close> rounds to the nearest integer, a tie going to the even neighbour;
  \<open>round(x, n)\<close> does the same at the n-th decimal.
\<close>

definition py_round :: "real \<Rightarrow> int" where
  "py_round x =
     (let f = \<lfloor>x\<rfloor>; d = x - of_int f
      in if d < 1 / 2 then f
         else if 1 / 2 < d then f + 1
         else if even f then f else f + 1)"

definition round_nd :: "real \<Rightarrow> nat \<Rightarrow> real" where
  "round_nd x n = of_int (py_round (x * 10 ^ n)) / 10 ^ n"

text \<open>
  Where a value is compared with a threshold or converted to an integer, the
  representation error of a Python float decides the outcome, and the float is modelled
  as the IEEE 754 double it is: \<open>fl x\<close> is the double nearest to the real \<open>x\<close>, with a
  significand of 53 bits, ties going to the even significand, and gradual underflow
  below \<open>2\<^sup>-\<^sup>1\<^sup>0\<^sup>2\<^sup>2\<close>. \<open>exponent x\<close> is the integer \<open>e\<close> with \<open>2\<^sup>e \<le> x < 2\<^sup>e\<^sup>+\<^sup>1\<close> for
  positive \<open>x\<close>. A result of magnitude \<open>2\<^sup>1\<^sup>0\<^sup>2\<^sup>4\<close> or more stands for an infinity.
\<close>

definition pow2 :: "int \<Rightarrow> real" where
  "pow2 e = (if 0 \<le> e then 2 ^ nat e else 1 / 2 ^ nat (- e))"

definition exponent :: "real \<Rightarrow> int" where
  "exponent x = (if 1 \<le> x then bitlen \<lfloor>x\<rfloor> - 1 else - bitlen (\<lceil>1 / x\<rceil> - 1))"

definition fl :: "real \<Rightarrow> real" where
  "fl x =
     (if x = 0 then 0
      else (let e = max (- 1022) (exponent \<bar>x\<bar>);
                u = pow2 (e - 52)
            in of_int (py_round (x / u)) * u))"

text \<open>\<open>str.upper()\<close> on ASCII text (a \<open>char\<close> is a byte here).\<close>

definition upper_char :: "char \<Rightarrow> char" where
  "upper_char c =
     (let n = (of_char c :: nat)
      in if 97 \<le> n \<and> n \<le> 122 then char_of (n - 32) else c)"

definition upper :: "string \<Rightarrow> string" where
  "upper s = map upper_char s"

text \<open>
  A dict whose values are running totals, as an association list in insertion order:
  \<open>d[k] = d.get(k, 0) + a\<close>.
\<close>

fun dict_add :: "('k \<times> real) list \<Rightarrow> 'k \<Rightarrow> real \<Rightarrow> ('k \<times> real) list" where
  "dict_add [] k a = [(k, 0 + a)]"
| "dict_add ((k', v) # d) k a =
     (if k' = k then (k', v + a) # d else (k', v) # dict_add d k a)"

text \<open>\<open>d.get(k, default)\<close> on an association list.\<close>

definition dict_get :: "('k \<times> 'v) list \<Rightarrow> 'k \<Rightarrow> 'v \<Rightarrow> 'v" where
  "dict_get d k dflt = (case map_of d k of None \<Rightarrow> dflt | Some v \<Rightarrow> v)"

section \<open>Dates\<close>

text \<open>
  A \<open>datetime.date\<close> is its year, month and day. Dates are ordered by their proleptic
  Gregorian ordinal (\<open>date.toordinal\<close>), and \<open>d - timedelta(days=n)\<close> lowers the ordinal
  by \<open>n\<close>; the comparison \<open>t >= today - timedelta(days=n)\<close> is therefore made on
  ordinals. The range limits of \<open>date\<close> (years 1 to 9999) are not modelled.
\<close>

record date =
  year :: int
  month :: int
  day :: int

definition is_leap :: "int \<Rightarrow> bool" where
  "is_leap y = (y mod 4 = 0 \<and> (y mod 100 \<noteq> 0 \<or> y mod 400 = 0))"

definition days_before_year :: "int \<Rightarrow> int" where
  "days_before_year y =
     (let p = y - 1 in p * 365 + p div 4 - p div 100 + p div 400)"

definition days_before_month :: "int \<Rightarrow> int \<Rightarrow> int" where
  "days_before_month y m =
     (let tbl = [0, 31, 59, 90, 120, 151, 181, 212, 243, 273, 304, 334 :: int];
          i = nat (m - 1)
      in (if i < length tbl then tbl ! i else 0)
         + (if 2 < m \<and> is_leap y then 1 else 0))"

definition toordinal :: "date \<Rightarrow> int" where
  "toordinal d = days_before_year (year d) + days_before_month (year d) (month d) + day d"

text \<open>\<open>strftime("%Y-%m")\<close>: the month key, kept as the pair of year and month.\<close>

definition month_key :: "date \<Rightarrow> int \<times> int" where
  "month_key d = (year d, month d)"

section \<open>Rule-based scorer\<close>

text \<open>
  A transaction is a dict; a field is \<open>None\<close> when the key is missing.
  \<open>transaction_date\<close> is \<open>None\<close> also when the value is not a \<open>date\<close>, and
  \<open>balance_after\<close> also when the value is Python's \<open>None\<close>.
\<close>

record transaction =
  transaction_date :: "date option"
  amount :: "real option"
  transaction_type :: "string option"
  category :: "string option"
  balance_after :: "real option"

datatype pattern = SalaryCredits | BettingSpend real | NegativeSavings

record BaseScoreResult =
  income_stability_score :: real
  avg_monthly_income_score :: real
  savings_rate_score :: real
  low_balance_score :: real
  transaction_diversity_score :: real
  base_total :: real
  avg_monthly_income :: real
  income_cv :: real
  avg_monthly_savings :: real
  low_balance_events :: nat
  category_breakdown :: "(string \<times> real) list"
  analysis_period_days :: int
  patterns :: "pattern list"

text \<open>The transactions of the window, each with its date.\<close>

definition tx_window :: "date \<Rightarrow> int \<Rightarrow> transaction list \<Rightarrow> (date \<times> transaction) list" where
  "tx_window today days transactions =
     List.map_filter
       (\<lambda>t. case transaction_date t of
               None \<Rightarrow> None
             | Some d \<Rightarrow> if toordinal today - days \<le> toordinal d then Some (d, t) else None)
       transactions"

text \<open>The state of the grouping loop.\<close>

record groups =
  monthly_credits :: "((int \<times> int) \<times> real) list"
  monthly_debits :: "((int \<times> int) \<times> real) list"
  category_totals :: "(string \<times> real) list"
  negative_balance_events :: nat

definition group_step :: "groups \<Rightarrow> date \<times> transaction \<Rightarrow> groups" where
  "group_step g dt =
     (let d = fst dt; t = snd dt;
          mk = month_key d;
          amt = (case amount t of None \<Rightarrow> 0 | Some a \<Rightarrow> a);
          tx_type = upper (case transaction_type t of None \<Rightarrow> [] | Some s \<Rightarrow> s);
          cat = (case category t of None \<Rightarrow> ''OTHER'' | Some c \<Rightarrow> c);
          g1 = (if tx_type = ''CREDIT''
                then g\<lparr>monthly_credits := dict_add (monthly_credits g) mk amt\<rparr>
                else if tx_type = ''DEBIT''
                then g\<lparr>monthly_debits := dict_add (monthly_debits g) mk amt,
                       category_totals := dict_add (category_totals g) cat amt\<rparr>
                else g)
      in case balance_after t of
           None \<Rightarrow> g1
         | Some b \<Rightarrow> if b < 0
                     then g1\<lparr>negative_balance_events := negative_balance_events g1 + 1\<rparr>
                     else g1)"

definition group_loop :: "(date \<times> transaction) list \<Rightarrow> groups" where
  "group_loop w =
     foldl group_step
       \<lparr>monthly_credits = [], monthly_debits = [], category_totals = [],
        negative_balance_events = 0\<rparr> w"

text \<open>
  \<open>statistics.mean\<close> and \<open>statistics.stdev\<close>. The scorer calls \<open>mean\<close> on a list that
  is never empty and \<open>stdev\<close> on a list of at least two values.
\<close>

definition mean :: "real list \<Rightarrow> real" where
  "mean xs = sum_list xs / real (length xs)"

definition stdev :: "real list \<Rightarrow> real" where
  "stdev xs =
     (let m = mean xs
      in sqrt (sum_list (map (\<lambda>x. (x - m)\<^sup>2) xs) / real (length xs - 1)))"

definition stability_points :: "real \<Rightarrow> real" where
  "stability_points cv =
     (if cv < 0.10 then 150 else if cv < 0.20 then 120
      else if cv < 0.35 then 80 else if cv < 0.50 then 40 else 10)"

definition income_points :: "real \<Rightarrow> real" where
  "income_points inc =
     (if 100000 < inc then 150 else if 50000 < inc then 120
      else if 20000 < inc then 80 else if 5000 < inc then 40 else 10)"

definition savings_points :: "real \<Rightarrow> real" where
  "savings_points r =
     (if 0.30 < r then 100 else if 0.15 < r then 75
      else if 0.05 < r then 50 else if 0 \<le> r then 25 else 0)"

definition low_balance_points :: "nat \<Rightarrow> real" where
  "low_balance_points n =
     (if n = 0 then 150 else if n \<le> 1 then 100 else if n \<le> 3 then 50 else 10)"

definition diversity_points :: "nat \<Rightarrow> real" where
  "diversity_points n =
     (if 6 \<le> n then 150 else if 4 \<le> n then 100 else if 2 \<le> n then 60 else 20)"

definition calculate_base_score :: "date \<Rightarrow> transaction list \<Rightarrow> int \<Rightarrow> BaseScoreResult" where
  "calculate_base_score today transactions days =
     (let w = tx_window today days transactions;
          g = group_loop w;
          monthly_income_list =
            (if monthly_credits g = [] then [0] else map snd (monthly_credits g));
          avg_income_m = mean monthly_income_list;
          cv = (if 1 < length monthly_income_list \<and> 0 < avg_income_m
                then stdev monthly_income_list / avg_income_m else 1);
          s1 = stability_points cv;
          avg_income = (if 0 < avg_income_m then avg_income_m else 1);
          threshold = avg_income * 0.10;
          low_events =
            length (filter (\<lambda>dt. case balance_after (snd dt) of
                                     None \<Rightarrow> False | Some b \<Rightarrow> b < threshold) w);
          s2 = income_points avg_income_m;
          total_credits = sum_list (map snd (monthly_credits g));
          total_debits = sum_list (map snd (monthly_debits g));
          net_savings = total_credits - total_debits;
          savings_rate = (if 0 < total_credits then net_savings / total_credits else 0);
          avg_savings = net_savings / real (max (length (monthly_credits g)) 1);
          s3 = savings_points savings_rate;
          s4 = low_balance_points low_events;
          s5 = diversity_points (length (category_totals g));
          raw_total = s1 + s2 + s3 + s4 + s5;
          total = max 300 (min 700 (300 + (raw_total / 700) * 400));
          debit_sum = sum_list (map snd (category_totals g));
          total_debit_amount = (if debit_sum = 0 then 1 else debit_sum);
          breakdown =
            map (\<lambda>kv. (fst kv, round_nd (snd kv / total_debit_amount * 100) 1))
              (sort_key (\<lambda>kv. - snd kv) (category_totals g));
          betting = dict_get breakdown ''BETTING'' 0;
          pats =
            (if 0 < dict_get breakdown ''SALARY'' 0 then [SalaryCredits] else [])
            @ (if betting \<noteq> 0 \<and> 3 < betting then [BettingSpend betting] else [])
            @ (if savings_rate < 0 then [NegativeSavings] else [])
      in \<lparr>income_stability_score = s1,
          avg_monthly_income_score = s2,
          savings_rate_score = s3,
          low_balance_score = s4,
          transaction_diversity_score = s5,
          base_total = round_nd total 2,
          avg_monthly_income = round_nd avg_income_m 2,
          income_cv = round_nd cv 4,
          avg_monthly_savings = round_nd avg_savings 2,
          low_balance_events = low_events,
          category_breakdown = breakdown,
          analysis_period_days = days,
          patterns = pats\<rparr>)"

section \<open>Bureau extractor\<close>

text \<open>
  The raw bureau report is a dict. A field of \<open>credit_report\<close> is \<open>None\<close> when the key
  is missing (or, for the fields read with \<open>or 0\<close>, when the value is falsy); the two
  account lists are empty when their key is missing. \<open>extra_keys\<close> are the keys of the
  raw report other than \<open>creditReport\<close>: they only matter for the truth value of the dict.
\<close>

record npa_account =
  currentBalance :: "real option"

record default_account =
  status :: "string option"

record credit_report =
  bureauName :: "string option"
  reportDate :: "string option"
  bureauScore :: "int option"
  nonPerformingAccounts :: "npa_account list"
  performingAccountsWithDefault :: "default_account list"
  enquiriesLast90Days :: "int option"
  creditApplicationsLast12Months :: "int option"

record raw_report =
  creditReport :: "credit_report option"
  extra_keys :: "string list"

record CrbMetrics =
  crb_name :: string
  bureau_score :: int
  bureau_score_pts :: real
  npa_count :: nat
  npa_outstanding :: real
  npa_pts :: real
  active_defaults :: nat
  settled_defaults :: nat
  default_pts :: real
  enquiries_90d :: int
  applications_12m :: int
  report_date :: string
  crb_contribution :: real

text \<open>\<open>raw_report.get("creditReport", {})\<close>: the empty dict when the key is missing.\<close>

definition empty_credit_report :: credit_report where
  "empty_credit_report =
     \<lparr>bureauName = None, reportDate = None, bureauScore = None,
      nonPerformingAccounts = [], performingAccountsWithDefault = [],
      enquiriesLast90Days = None, creditApplicationsLast12Months = None\<rparr>"

definition or_zero :: "'a::zero option \<Rightarrow> 'a" where
  "or_zero v = (case v of None \<Rightarrow> 0 | Some x \<Rightarrow> x)"

definition status_upper :: "default_account \<Rightarrow> string" where
  "status_upper a = upper (case status a of None \<Rightarrow> [] | Some s \<Rightarrow> s)"

definition extract_crb_metrics :: "raw_report \<Rightarrow> CrbMetrics" where
  "extract_crb_metrics raw =
     (let cr = (case creditReport raw of None \<Rightarrow> empty_credit_report | Some c \<Rightarrow> c);
          name = (case bureauName cr of None \<Rightarrow> ''Unknown'' | Some n \<Rightarrow> n);
          rdate = (case reportDate cr of None \<Rightarrow> ''N/A'' | Some d \<Rightarrow> d);
          bscore = or_zero (bureauScore cr);
          bpts = max 0 (min 100 ((real_of_int bscore - 300) / 600 * 100));
          npas = nonPerformingAccounts cr;
          n_npa = length npas;
          outstanding = sum_list (map (\<lambda>a. or_zero (currentBalance a)) npas);
          npts = (if n_npa = 0 then 30 else if n_npa \<le> 2 then 10 else - 20);
          pwd = performingAccountsWithDefault cr;
          n_active =
            length (filter (\<lambda>a. status_upper a \<in> set [''ACTIVE'', ''DELINQUENT'']) pwd);
          n_settled =
            length (filter (\<lambda>a. status_upper a \<in> set [''CLOSED'', ''SETTLED'', ''PAID'']) pwd);
          dpts = (if n_active = 0 \<and> n_settled = 0 then 20
                  else if n_active = 0 \<and> 0 < n_settled then 0 else - 30);
          enq = or_zero (enquiriesLast90Days cr);
          apps = or_zero (creditApplicationsLast12Months cr);
          contribution = max 0 (min 150 (bpts + npts + dpts))
      in \<lparr>crb_name = name,
          bureau_score = bscore,
          bureau_score_pts = round_nd bpts 2,
          npa_count = n_npa,
          npa_outstanding = round_nd outstanding 2,
          npa_pts = npts,
          active_defaults = n_active,
          settled_defaults = n_settled,
          default_pts = dpts,
          enquiries_90d = enq,
          applications_12m = apps,
          report_date = rdate,
          crb_contribution = round_nd contribution 2\<rparr>)"

section \<open>Qualitative adjuster\<close>

text \<open>
  The value \<open>json.loads\<close> returns. \<open>JNaN\<close> and \<open>JInfinity\<close> are the float values that
  Python's parser accepts beyond the reals (\<open>JInfinity True\<close> is the negative one).
\<close>

datatype json =
    JNull
  | JBool bool
  | JInt int
  | JFloat real
  | JNaN
  | JInfinity bool
  | JString string
  | JArray "json list"
  | JObject "(string \<times> json) list"

text \<open>The exceptions of the model; every one of them is a subclass of \<open>Exception\<close>.\<close>

datatype py_error =
    ProviderError
  | IndexError
  | TypeError
  | ValueError
  | OverflowError
  | AttributeError
  | ZeroDivisionError
  | MlflowException

definition is_Exception :: "py_error \<Rightarrow> bool" where
  "is_Exception e = True"

text \<open>
  \<open>int(s)\<close> for a string, given as the list of its code points (all below 256 in this
  type): surrounding whitespace, an optional sign, then decimal digits, where single
  underscores may separate digits. The whitespace that \<open>int\<close> strips is tab, line feed,
  vertical tab, form feed, carriage return and space, and, outside ASCII, next line
  (0x85) and no-break space (0xA0); the separators 0x1C to 0x1F are not stripped. A
  string of more than 4300 digits is refused, as by the default conversion limit.
\<close>

definition is_space :: "char \<Rightarrow> bool" where
  "is_space c = ((of_char c :: nat) \<in> set [9, 10, 11, 12, 13, 32, 133, 160])"

definition MAX_STR_DIGITS :: nat where
  "MAX_STR_DIGITS = 4300"

definition is_digit :: "char \<Rightarrow> bool" where
  "is_digit c = (48 \<le> (of_char c :: nat) \<and> (of_char c :: nat) \<le> 57)"

definition digit_val :: "char \<Rightarrow> int" where
  "digit_val c = int (of_char c) - 48"

definition strip :: "string \<Rightarrow> string" where
  "strip s = rev (dropWhile is_space (rev (dropWhile is_space s)))"

fun parse_digits :: "bool \<Rightarrow> string \<Rightarrow> int \<Rightarrow> int option" where
  "parse_digits need_digit [] acc = (if need_digit then None else Some acc)"
| "parse_digits need_digit (c # cs) acc =
     (if is_digit c then parse_digits False cs (acc * 10 + digit_val c)
      else if c = CHR ''_'' \<and> \<not> need_digit then parse_digits True cs acc
      else None)"

definition int_of_str :: "string \<Rightarrow> int option" where
  "int_of_str s =
     (case strip s of
        [] \<Rightarrow> None
      | c # cs \<Rightarrow>
          (let digits = (if c = CHR ''-'' \<or> c = CHR ''+'' then cs else c # cs);
               v = (if MAX_STR_DIGITS < length (filter is_digit digits) then None
                    else parse_digits True digits 0)
           in if c = CHR ''-'' then map_option uminus v else v))"

text \<open>
  \<open>int(v)\<close> for a JSON value. A JSON number with a fraction or an exponent is the double
  nearest to it; \<open>int\<close> truncates it towards zero, and raises \<open>OverflowError\<close> when the
  double is infinite.
\<close>

definition trunc :: "real \<Rightarrow> int" where
  "trunc x = (if 0 \<le> x then \<lfloor>x\<rfloor> else \<lceil>x\<rceil>)"

fun py_int :: "json \<Rightarrow> py_error + int" where
  "py_int JNull = Inl TypeError"
| "py_int (JBool b) = Inr (if b then 1 else 0)"
| "py_int (JInt n) = Inr n"
| "py_int (JFloat x) =
     (let d = fl x in if 2 ^ 1024 \<le> \<bar>d\<bar> then Inl OverflowError else Inr (trunc d))"
| "py_int JNaN = Inl ValueError"
| "py_int (JInfinity neg) = Inl OverflowError"
| "py_int (JString s) = (case int_of_str s of None \<Rightarrow> Inl ValueError | Some n \<Rightarrow> Inr n)"
| "py_int (JArray xs) = Inl TypeError"
| "py_int (JObject kvs) = Inl TypeError"

text \<open>
  Cancellation of the awaiting task is raised by the caller's event loop, not by the
  provider, and is not an \<open>Exception\<close>; it is outside this model.

  What the provider does with one request, up to and including \<open>json.loads\<close>:
  the awaited call raises; the response has no choice; the content of the first choice
  is \<open>None\<close>; \<open>json.loads\<close> raises on the content; or the content is the text \<open>raw\<close>
  and \<open>json.loads\<close> returns a value for it. The pairs of a JSON object are kept in the
  order of the text, and a key that occurs twice has the value of its last occurrence.
  \<open>json.loads\<close> also raises \<open>ValueError\<close> on an integer of more than 4300 digits, so a
  value that holds such an integer is not \<open>loadable\<close>.
\<close>

fun num_digits :: "nat \<Rightarrow> nat" where
  "num_digits n = (if n < 10 then 1 else Suc (num_digits (n div 10)))"

declare num_digits.simps [simp del]

fun loadable :: "json \<Rightarrow> bool" where
  "loadable (JInt n) = (num_digits (nat \<bar>n\<bar>) \<le> MAX_STR_DIGITS)"
| "loadable (JArray xs) = list_all loadable xs"
| "loadable (JObject kvs) = list_all loadable (map snd kvs)"
| "loadable v = True"

definition object_get :: "(string \<times> json) list \<Rightarrow> string \<Rightarrow> json \<Rightarrow> json" where
  "object_get kvs k dflt = dict_get (rev kvs) k dflt"

datatype provider_behaviour =
    CallRaises
  | NoChoices
  | NoContent
  | NotJson string
  | Json string json

record llm_result =
  adjustment :: int
  reasoning :: json
  raw :: string

definition fallback :: llm_result where
  "fallback =
     \<lparr>adjustment = 0, reasoning = JArray [JString ''LLM analysis unavailable.''], raw = []\<rparr>"

text \<open>The body of the \<open>try\<close> block.\<close>

definition adjustment_body :: "provider_behaviour \<Rightarrow> py_error + llm_result" where
  "adjustment_body b =
     (case b of
        CallRaises \<Rightarrow> Inl ProviderError
      | NoChoices \<Rightarrow> Inl IndexError
      | NoContent \<Rightarrow> Inl TypeError
      | NotJson s \<Rightarrow> Inl ValueError
      | Json rawtext data \<Rightarrow>
          if \<not> loadable data then Inl ValueError
          else
            (case data of
               JObject kvs \<Rightarrow>
                 (case py_int (object_get kvs ''adjustment'' (JInt 0)) of
                    Inl e \<Rightarrow> Inl e
                  | Inr n \<Rightarrow>
                      Inr \<lparr>adjustment = max (- 50) (min 50 n),
                           reasoning = object_get kvs ''reasoning'' (JArray []),
                           raw = rawtext\<rparr>)
             | _ \<Rightarrow> Inl AttributeError))"

text \<open>\<open>try: ... except Exception: return fallback\<close>.\<close>

definition get_score_adjustment :: "provider_behaviour \<Rightarrow> py_error + llm_result" where
  "get_score_adjustment b =
     (case adjustment_body b of
        Inr r \<Rightarrow> Inr r
      | Inl e \<Rightarrow> if is_Exception e then Inr fallback else Inl e)"

section \<open>Points-to-double-odds transformer\<close>

record PDOTransformer =
  pdo :: real
  base_score :: real
  base_odds :: real
  factor :: real
  offset :: real

record PDOResult =
  pd_probability :: real
  score :: int
  band :: string
  factor :: real
  offset :: real

text \<open>The constructor; \<open>math.log\<close> raises \<open>ValueError\<close> outside the positive reals.\<close>

definition py_log :: "real \<Rightarrow> py_error + real" where
  "py_log x = (if 0 < x then Inr (ln x) else Inl ValueError)"

definition new_PDOTransformer :: "real \<Rightarrow> real \<Rightarrow> real \<Rightarrow> py_error + PDOTransformer" where
  "new_PDOTransformer p bs bo =
     (let f = p / ln 2
      in case py_log bo of
           Inl e \<Rightarrow> Inl e
         | Inr l \<Rightarrow>
             Inr \<lparr>pdo = p, base_score = bs, base_odds = bo,
                  PDOTransformer.factor = f, PDOTransformer.offset = bs - f * l\<rparr>)"

definition BANDS :: "(int \<times> string) list" where
  "BANDS =
     [(780, ''Excellent''), (720, ''Very Good''), (680, ''Good''),
      (640, ''Fair''), (600, ''Marginal''), (0, ''Poor'')]"

fun band_loop :: "(int \<times> string) list \<Rightarrow> int \<Rightarrow> string" where
  "band_loop [] s = ''Poor''"
| "band_loop ((lo, label) # bs) s = (if lo \<le> s then label else band_loop bs s)"

definition get_band :: "int \<Rightarrow> string" where
  "get_band s = band_loop BANDS s"

definition pd_clamp :: "real \<Rightarrow> real" where
  "pd_clamp p = max (1 / 10000) (min (9999 / 10000) p)"

definition raw_score :: "PDOTransformer \<Rightarrow> real \<Rightarrow> real" where
  "raw_score t p =
     (let pd_clamped = pd_clamp p;
          odds = pd_clamped / (1 - pd_clamped)
      in PDOTransformer.offset t - PDOTransformer.factor t * ln odds)"

definition transform :: "PDOTransformer \<Rightarrow> real \<Rightarrow> PDOResult" where
  "transform t p =
     (let sc = max 300 (min 850 (py_round (raw_score t p)))
      in \<lparr>pd_probability = round_nd p 6,
          score = sc,
          band = get_band sc,
          PDOResult.factor = round_nd (PDOTransformer.factor t) 4,
          PDOResult.offset = round_nd (PDOTransformer.offset t) 4\<rparr>)"

text \<open>The inverse; the division raises when the factor is zero.\<close>

definition pd_from_score :: "PDOTransformer \<Rightarrow> int \<Rightarrow> py_error + real" where
  "pd_from_score t s =
     (if PDOTransformer.factor t = 0 then Inl ZeroDivisionError
      else (let odds = exp ((PDOTransformer.offset t - real_of_int s) / PDOTransformer.factor t)
            in Inr (round_nd (odds / (1 + odds)) 6)))"

section \<open>Hybrid orchestrator\<close>

definition score_to_pd :: "real \<Rightarrow> real" where
  "score_to_pd s =
     (let k = 0.012; midpoint = 500;
          pd = 1 / (1 + exp (k * (s - midpoint)))
      in round_nd pd 6)"

record HybridScoreResult =
  customer_id :: int
  base_score :: real
  crb_contribution :: real
  llm_adjustment :: int
  pd_probability :: real
  final_score :: int
  score_band :: string
  reasoning :: json
  crb_metrics :: "CrbMetrics option"
  base_result :: BaseScoreResult
  model_target :: string

text \<open>The truth value of an optional dict: \<open>None\<close> and the empty dict are false.\<close>

definition truthy :: "raw_report option \<Rightarrow> bool" where
  "truthy r =
     (case r of None \<Rightarrow> False
      | Some d \<Rightarrow> creditReport d \<noteq> None \<or> extra_keys d \<noteq> [])"

text \<open>
  \<open>compute_hybrid_score\<close>. The day of the call, the module's transformer \<open>_pdo\<close> and the
  behaviour of the language-model provider on the prompt are parameters. The prompt text,
  the log lines and the provider and model names read from the environment are left out.
\<close>

definition compute_hybrid_score ::
  "date \<Rightarrow> PDOTransformer \<Rightarrow> provider_behaviour \<Rightarrow> int \<Rightarrow> transaction list
     \<Rightarrow> raw_report option \<Rightarrow> int \<Rightarrow> string \<Rightarrow> py_error + HybridScoreResult" where
  "compute_hybrid_score today pdo_t provider cid transactions crb_raw_report days target =
     (let base = calculate_base_score today transactions days;
          metrics = (if truthy crb_raw_report
                     then map_option extract_crb_metrics crb_raw_report else None);
          contribution = (case metrics of None \<Rightarrow> 0 | Some m \<Rightarrow> CrbMetrics.crb_contribution m)
      in case get_score_adjustment provider of
           Inl e \<Rightarrow> Inl e
         | Inr llm_resp \<Rightarrow>
             (let adj = adjustment llm_resp;
                  intermediate = base_total base + contribution + real_of_int adj;
                  pd = score_to_pd intermediate;
                  pdo_result = transform pdo_t pd
              in Inr \<lparr>customer_id = cid,
                      base_score = base_total base,
                      crb_contribution = contribution,
                      llm_adjustment = adj,
                      pd_probability = PDOResult.pd_probability pdo_result,
                      final_score = score pdo_result,
                      score_band = band pdo_result,
                      reasoning = llm_result.reasoning llm_resp,
                      crb_metrics = metrics,
                      base_result = base,
                      model_target = target\<rparr>))"

section \<open>Model registry and governance\<close>

text \<open>
  The registry service as the client sees it: which version each alias names, the tags
  of each version, the run of each version and the metrics of each run. A lookup of an
  alias that names no version raises \<open>MlflowException\<close>; the other calls succeed.
  Failures of the connection to the service are not modelled.
\<close>

record registry =
  aliases :: "string \<rightharpoonup> string"
  version_tags :: "string \<Rightarrow> (string \<rightharpoonup> string)"
  version_run :: "string \<rightharpoonup> string"
  run_metrics :: "string \<rightharpoonup> (string \<rightharpoonup> real)"

definition ALIAS_CHAMPION :: string where
  "ALIAS_CHAMPION = ''champion''"

definition ALIAS_CHALLENGER :: string where
  "ALIAS_CHALLENGER = ''challenger''"

definition ALIAS_STAGING :: string where
  "ALIAS_STAGING = ''staging''"

definition get_model_version_by_alias :: "registry \<Rightarrow> string \<Rightarrow> py_error + string" where
  "get_model_version_by_alias s a =
     (case aliases s a of None \<Rightarrow> Inl MlflowException | Some v \<Rightarrow> Inr v)"

definition set_registered_model_alias :: "registry \<Rightarrow> string \<Rightarrow> string \<Rightarrow> registry" where
  "set_registered_model_alias s a v = s\<lparr>aliases := (aliases s)(a \<mapsto> v)\<rparr>"

definition delete_registered_model_alias :: "registry \<Rightarrow> string \<Rightarrow> registry" where
  "delete_registered_model_alias s a = s\<lparr>aliases := (aliases s)(a := None)\<rparr>"

definition set_model_version_tag :: "registry \<Rightarrow> string \<Rightarrow> string \<Rightarrow> string \<Rightarrow> registry" where
  "set_model_version_tag s v k x =
     s\<lparr>version_tags := (version_tags s)(v := (version_tags s v)(k \<mapsto> x))\<rparr>"

definition promote_to_staging :: "registry \<Rightarrow> string \<Rightarrow> registry" where
  "promote_to_staging s v = set_registered_model_alias s ALIAS_STAGING v"

definition promote_to_challenger :: "registry \<Rightarrow> string \<Rightarrow> registry" where
  "promote_to_challenger s v = set_registered_model_alias s ALIAS_CHALLENGER v"

text \<open>
  \<open>promote_challenger_to_champion\<close> returns the new state of the registry and the
  function's result. Both lookups are inside the \<open>try\<close>, whose handler returns \<open>None\<close>.
\<close>

definition promote_challenger_to_champion :: "registry \<Rightarrow> registry \<times> string option" where
  "promote_challenger_to_champion s =
     (case get_model_version_by_alias s ALIAS_CHALLENGER of
        Inl e \<Rightarrow> (s, None)
      | Inr challenger_v \<Rightarrow>
          (case get_model_version_by_alias s ALIAS_CHAMPION of
             Inl e \<Rightarrow> (s, None)
           | Inr champion_v \<Rightarrow>
               (let s1 = delete_registered_model_alias s ALIAS_CHAMPION;
                    s2 = set_model_version_tag s1 champion_v ''retired'' ''true'';
                    s3 = set_registered_model_alias s2 ALIAS_CHAMPION challenger_v;
                    s4 = delete_registered_model_alias s3 ALIAS_CHALLENGER
                in (s4, Some challenger_v))))"

text \<open>\<open>_get_metrics\<close>: the version and the metrics of its run, or \<open>(None, {})\<close>.\<close>

definition get_metrics :: "registry \<Rightarrow> string \<Rightarrow> string option \<times> (string \<rightharpoonup> real)" where
  "get_metrics s a =
     (case get_model_version_by_alias s a of
        Inl e \<Rightarrow> (None, Map.empty)
      | Inr v \<Rightarrow>
          (case version_run s v of
             None \<Rightarrow> (None, Map.empty)
           | Some r \<Rightarrow>
               (case run_metrics s r of
                  None \<Rightarrow> (None, Map.empty)
                | Some m \<Rightarrow> (Some v, m))))"

record model_info =
  version :: "string option"
  ks :: real
  auc :: real

record comparison =
  champion :: model_info
  challenger :: model_info
  ks_improvement :: real
  auc_improvement :: real
  recommendation :: string

text \<open>
  \<open>metrics.get(k, d)\<close>. A metric of a run is a double: a logged value is read as the double
  nearest to it.
\<close>

definition metric_or :: "(string \<rightharpoonup> real) \<Rightarrow> string \<Rightarrow> real \<Rightarrow> real" where
  "metric_or m k d = (case m k of None \<Rightarrow> d | Some v \<Rightarrow> fl v)"

text \<open>
  The decision of \<open>compare_champion_challenger\<close> on the metrics of the two runs, in the
  arithmetic of doubles: the subtraction rounds its result, each threshold is the double
  nearest to the decimal written in the source, and \<open>round(x, 4)\<close> gives the double
  nearest to the rounded decimal.
\<close>

definition compare_metrics ::
  "string option \<times> (string \<rightharpoonup> real) \<Rightarrow> string option \<times> (string \<rightharpoonup> real) \<Rightarrow> comparison" where
  "compare_metrics champ chall =
     (let champ_ks = metric_or (snd champ) ''ks_statistic'' (- 1);
          chall_ks = metric_or (snd chall) ''ks_statistic'' (- 1);
          champ_auc = metric_or (snd champ) ''roc_auc'' (- 1);
          chall_auc = metric_or (snd chall) ''roc_auc'' (- 1);
          ks_imp = (if 0 < champ_ks then fl (chall_ks - champ_ks) else 0);
          auc_imp = (if 0 < champ_auc then fl (chall_auc - champ_auc) else 0);
          rec = (if fl 0.02 \<le> ks_imp \<or> fl 0.005 \<le> auc_imp then ''promote_challenger''
                 else if ks_imp \<le> fl (- 0.03) \<or> auc_imp \<le> fl (- 0.01)
                 then ''rollback_challenger''
                 else ''keep_champion'')
      in \<lparr>champion = \<lparr>version = fst champ, ks = champ_ks, auc = champ_auc\<rparr>,
          challenger = \<lparr>version = fst chall, ks = chall_ks, auc = chall_auc\<rparr>,
          ks_improvement = fl (round_nd ks_imp 4),
          auc_improvement = fl (round_nd auc_imp 4),
          recommendation = rec\<rparr>)"

definition compare_champion_challenger :: "registry \<Rightarrow> comparison" where
  "compare_champion_challenger s =
     compare_metrics (get_metrics s ALIAS_CHAMPION) (get_metrics s ALIAS_CHALLENGER)"

section \<open>Feature-attribution engine\<close>

text \<open>
  \<open>analyse_recent_defaults\<close> on the feature dicts of the rows it loaded. The attribution
  library and the model behind it are the parameter \<open>compute_shap\<close>: from the feature
  matrix to the matrix of attribution values (one row per record, one column per
  feature) and the model version, or \<open>None\<close> when the model is not available. The writes
  to the experiment tracker and to the log table, whose failures are swallowed, do not
  change the result and are left out.
\<close>

definition TOP_K_FEATURES :: nat where
  "TOP_K_FEATURES = 10"

record shap_report =
  feature_importances :: "(string \<times> real) list"
  n_defaults_analysed :: nat
  top_drivers :: "string list"
  analysis_date :: date

definition startswith_underscore :: "string \<Rightarrow> bool" where
  "startswith_underscore k = (case k of [] \<Rightarrow> False | c # cs \<Rightarrow> c = CHR ''_'')"

definition all_keys_of :: "(string \<times> real) list list \<Rightarrow> string list" where
  "all_keys_of feature_dicts =
     sort (remdups (filter (\<lambda>k. \<not> startswith_underscore k)
                      (concat (map (map fst) feature_dicts))))"

definition feature_matrix :: "string list \<Rightarrow> (string \<times> real) list list \<Rightarrow> real list list" where
  "feature_matrix keys feature_dicts =
     map (\<lambda>d. map (\<lambda>k. dict_get d k 0) keys) feature_dicts"

text \<open>\<open>np.mean(np.abs(m), axis=0)\<close> for a rectangular matrix given by its rows.\<close>

definition mean_abs_columns :: "real list list \<Rightarrow> real list" where
  "mean_abs_columns m = map (\<lambda>col. sum_list (map abs col) / real (length col)) (transpose m)"

definition analyse_recent_defaults ::
  "date \<Rightarrow> (real list list \<Rightarrow> (real list list \<times> string) option)
     \<Rightarrow> (string \<times> real) list list \<Rightarrow> shap_report" where
  "analyse_recent_defaults today compute_shap feature_dicts =
     (if length feature_dicts < 10
      then \<lparr>feature_importances = [], n_defaults_analysed = length feature_dicts,
            top_drivers = [], analysis_date = today\<rparr>
      else
        (let all_keys = all_keys_of feature_dicts;
             X = feature_matrix all_keys feature_dicts
         in case compute_shap X of
              None \<Rightarrow>
                \<lparr>feature_importances = [], n_defaults_analysed = length feature_dicts,
                 top_drivers = [], analysis_date = today\<rparr>
            | Some (shap_values, model_version) \<Rightarrow>
                (let mean_abs_shap = mean_abs_columns shap_values;
                     ranked = sort_key (\<lambda>fv. - snd fv) (zip all_keys mean_abs_shap);
                     fi = map (\<lambda>fv. (fst fv, round_nd (snd fv) 6)) ranked
                 in \<lparr>feature_importances = fi,
                     n_defaults_analysed = length feature_dicts,
                     top_drivers = map fst (take TOP_K_FEATURES fi),
                     analysis_date = today\<rparr>)))"

section \<open>The comparison as the specification words it\<close>

text \<open>
  The decision on the two differences, with no condition on the champion's metrics:
  promote when the KS gain is at least 0.02 or the AUC gain at least 0.005, otherwise
  roll back when the KS gain is at most -0.03 or the AUC gain at most -0.01, otherwise
  keep the champion.
\<close>

definition compare_as_specified :: "real \<Rightarrow> real \<Rightarrow> real \<Rightarrow> real \<Rightarrow> string" where
  "compare_as_specified champ_ks chall_ks champ_auc chall_auc =
     (let ks_imp = chall_ks - champ_ks;
          auc_imp = chall_auc - champ_auc
      in if 0.02 \<le> ks_imp \<or> 0.005 \<le> auc_imp then ''promote_challenger''
         else if ks_imp \<le> - 0.03 \<or> auc_imp \<le> - 0.01 then ''rollback_challenger''
         else ''keep_champion'')"

text \<open>
  The comparison as amended. The improvement of a metric is the difference of the two
  doubles, challenger minus champion, when the champion's value is positive, and 0
  otherwise. The decision on the two improvements is the rule above, with each threshold
  the double nearest to its decimal.
\<close>

definition guarded_difference :: "real \<Rightarrow> real \<Rightarrow> real" where
  "guarded_difference champ chall = (if 0 < champ then fl (chall - champ) else 0)"

definition decision_as_specified :: "real \<Rightarrow> real \<Rightarrow> string" where
  "decision_as_specified ks_imp auc_imp =
     (if fl 0.02 \<le> ks_imp \<or> fl 0.005 \<le> auc_imp then ''promote_challenger''
      else if ks_imp \<le> fl (- 0.03) \<or> auc_imp \<le> fl (- 0.01) then ''rollback_challenger''
      else ''keep_champion'')"

section \<open>Example inputs\<close>

text \<open>A registry from its tables: aliases, the run of each version, the metrics of each run.\<close>

definition registry_of ::
  "(string \<times> string) list \<Rightarrow> (string \<times> string) list
     \<Rightarrow> (string \<times> (string \<times> real) list) list \<Rightarrow> registry" where
  "registry_of als runs mets =
     \<lparr>aliases = map_of als, version_tags = (\<lambda>v. Map.empty),
      version_run = map_of runs, run_metrics = map_option map_of \<circ> map_of mets\<rparr>"

text \<open>A champion whose KS statistic is 0, and a challenger with KS 0.5 and the same AUC.\<close>

definition zero_ks_registry :: registry where
  "zero_ks_registry =
     registry_of [(''champion'', ''1''), (''challenger'', ''2'')]
       [(''1'', ''run1''), (''2'', ''run2'')]
       [(''run1'', [(''ks_statistic'', 0), (''roc_auc'', 0.75)]),
        (''run2'', [(''ks_statistic'', 0.5), (''roc_auc'', 0.75)])]"

text \<open>A champion with KS 0.10 and a challenger with KS 0.12: a gain at the threshold.\<close>

definition threshold_registry :: registry where
  "threshold_registry =
     registry_of [(''champion'', ''1''), (''challenger'', ''2'')]
       [(''1'', ''run1''), (''2'', ''run2'')]
       [(''run1'', [(''ks_statistic'', 0.10), (''roc_auc'', 0.80)]),
        (''run2'', [(''ks_statistic'', 0.12), (''roc_auc'', 0.80)])]"

text \<open>A champion with KS 0.35 and AUC 0.84, a challenger with KS 0.31 and AUC 0.83.\<close>

definition worse_ks_registry :: registry where
  "worse_ks_registry =
     registry_of [(''champion'', ''1''), (''challenger'', ''2'')]
       [(''1'', ''run1''), (''2'', ''run2'')]
       [(''run1'', [(''ks_statistic'', 0.35), (''roc_auc'', 0.84)]),
        (''run2'', [(''ks_statistic'', 0.31), (''roc_auc'', 0.83)])]"

text \<open>
  Two runs as the trainer of the repository logs them, the AUC under the key \<open>auc_roc\<close>:
  a champion with KS 0.30 and AUC 0.80, a challenger with KS 0.31 and AUC 0.90.
\<close>

definition trainer_registry :: registry where
  "trainer_registry =
     registry_of [(''champion'', ''1''), (''challenger'', ''2'')]
       [(''1'', ''run1''), (''2'', ''run2'')]
       [(''run1'', [(''auc_roc'', 0.80), (''ks_statistic'', 0.30)]),
        (''run2'', [(''auc_roc'', 0.90), (''ks_statistic'', 0.31)])]"

text \<open>A champion with KS 0.30 and AUC 0.80, a challenger with KS 0.33 and AUC 0.80.\<close>

definition better_ks_registry :: registry where
  "better_ks_registry =
     registry_of [(''champion'', ''1''), (''challenger'', ''2'')]
       [(''1'', ''run1''), (''2'', ''run2'')]
       [(''run1'', [(''ks_statistic'', 0.30), (''roc_auc'', 0.80)]),
        (''run2'', [(''ks_statistic'', 0.33), (''roc_auc'', 0.80)])]"

text \<open>A first challenger, version 2, in a registry that has no champion yet.\<close>

definition first_challenger_registry :: registry where
  "first_challenger_registry =
     registry_of [(''challenger'', ''2'')] [(''2'', ''run2'')]
       [(''run2'', [(''ks_statistic'', 0.9), (''roc_auc'', 0.99)])]"

text \<open>A champion whose run recorded no metrics, and a challenger with KS 0.9 and AUC 0.99.\<close>

definition bare_champion_registry :: registry where
  "bare_champion_registry =
     registry_of [(''champion'', ''1''), (''challenger'', ''2'')]
       [(''1'', ''run1''), (''2'', ''run2'')]
       [(''run1'', []), (''run2'', [(''ks_statistic'', 0.9), (''roc_auc'', 0.99)])]"

text \<open>A provider that answers \<^verbatim>\<open>{"adjustment": 999}\<close>.\<close>

definition quoted :: "string \<Rightarrow> string" where
  "quoted s = CHR 0x22 # s @ [CHR 0x22]"

definition eager_provider :: provider_behaviour where
  "eager_provider =
     Json (''{'' @ quoted ''adjustment'' @ '': 999}'') (JObject [(''adjustment'', JInt 999)])"

text \<open>
  A provider that answers \<^verbatim>\<open>{"adjustment": TEXT}\<close>, with the value that \<open>json.loads\<close>
  gives for \<open>TEXT\<close>.
\<close>

definition answering :: "string \<Rightarrow> json \<Rightarrow> provider_behaviour" where
  "answering value_text v =
     Json (''{'' @ quoted ''adjustment'' @ '': '' @ value_text @ ''}'')
       (JObject [(''adjustment'', v)])"

text \<open>The JSON string \<^verbatim>\<open>"\u001c9"\<close>: the control character 0x1C before the digit 9.\<close>

definition separator_nine :: string where
  "separator_nine = [CHR 0x1C, CHR ''9'']"

definition separator_nine_text :: string where
  "separator_nine_text = quoted (CHR 0x5C # ''u001c9'')"

text \<open>The JSON string \<^verbatim>\<open>"\u00a09"\<close>: a no-break space before the digit 9.\<close>

definition nbsp_nine :: string where
  "nbsp_nine = [CHR 0xA0, CHR ''9'']"

definition nbsp_nine_text :: string where
  "nbsp_nine_text = quoted (CHR 0x5C # ''u00a09'')"

text \<open>
  An answer that gives the key \<open>adjustment\<close> twice, and an answer whose adjustment is the
  integer of 4301 digits \<open>10 ^ 4300\<close>, which \<open>json.loads\<close> refuses.
\<close>

definition twice_text :: string where
  "twice_text = ''{'' @ quoted ''adjustment'' @ '': 5, '' @ quoted ''adjustment'' @ '': 70}''"

definition twice_provider :: provider_behaviour where
  "twice_provider = Json twice_text (JObject [(''adjustment'', JInt 5), (''adjustment'', JInt 70)])"

definition long_integer_provider :: provider_behaviour where
  "long_integer_provider =
     Json (''{'' @ quoted ''adjustment'' @ '': 1'' @ replicate 4300 (CHR ''0'') @ ''}'')
       (JObject [(''adjustment'', JInt (10 ^ 4300))])"

text \<open>
  Ten records of defaulted loans with three features, and an explainer for a model that uses only
  the feature \<open>income\<close>: the attribution values of the other two are 0 in every record.
\<close>

definition ten_records :: "(string \<times> real) list list" where
  "ten_records = replicate 10 [(''income'', 1), (''age'', 2), (''tenure'', 3)]"

definition one_feature_explainer :: "real list list \<Rightarrow> (real list list \<times> string) option" where
  "one_feature_explainer X = Some (map (\<lambda>row. [0, 1 / 2, 0]) X, ''1'')"

definition day0 :: date where
  "day0 = \<lparr>year = 2025, month = 3, day = 1\<rparr>"

text \<open>
  A bureau report with score 800 and no adverse account; and five transactions seen on
  1 March 2025: two salary credits in two months, one debit, one credit older than the
  window of 180 days, and one record without a date.
\<close>

definition sample_report :: raw_report where
  "sample_report =
     \<lparr>creditReport = Some
        \<lparr>bureauName = Some ''TransUnion'', reportDate = Some ''2025-03-01'',
         bureauScore = Some 800, nonPerformingAccounts = [],
         performingAccountsWithDefault = [],
         enquiriesLast90Days = Some 0, creditApplicationsLast12Months = Some 2\<rparr>,
      extra_keys = []\<rparr>"

definition sample_transactions :: "transaction list" where
  "sample_transactions =
     [\<lparr>transaction_date = Some \<lparr>year = 2025, month = 2, day = 25\<rparr>, amount = Some 50000,
       transaction_type = Some ''credit'', category = Some ''SALARY'',
       balance_after = Some 60000\<rparr>,
      \<lparr>transaction_date = Some \<lparr>year = 2025, month = 2, day = 26\<rparr>, amount = Some 10000,
       transaction_type = Some ''DEBIT'', category = Some ''RENT'',
       balance_after = Some 50000\<rparr>,
      \<lparr>transaction_date = Some \<lparr>year = 2025, month = 1, day = 25\<rparr>, amount = Some 50000,
       transaction_type = Some ''CREDIT'', category = Some ''SALARY'',
       balance_after = Some 45000\<rparr>,
      \<lparr>transaction_date = Some \<lparr>year = 2023, month = 1, day = 25\<rparr>, amount = Some 70000,
       transaction_type = Some ''CREDIT'', category = Some ''SALARY'',
       balance_after = Some 45000\<rparr>,
      \<lparr>transaction_date = None, amount = Some 1,
       transaction_type = Some ''DEBIT'', category = None,
       balance_after = None\<rparr>]"

section \<open>Auxiliary notions\<close>

text \<open>The transformer of the module: \<open>PDOTransformer()\<close> with the default parameters.\<close>

definition default_pdo :: PDOTransformer where
  "default_pdo =
     \<lparr>pdo = 50, base_score = 500, base_odds = 1,
      PDOTransformer.factor = 50 / ln 2, PDOTransformer.offset = 500\<rparr>"

text \<open>The probability of default before \<open>_score_to_pd\<close> rounds it.\<close>

definition unrounded_pd :: "real \<Rightarrow> real" where
  "unrounded_pd s = 1 / (1 + exp (0.012 * (s - 500)))"

text \<open>
  The probability that has log-odds \<open>u\<close>, and the log-odds of a probability: the two
  directions of \<open>odds = pd / (1 - pd)\<close> that \<open>transform\<close> and \<open>pd_from_score\<close> compute.
\<close>

definition sigma :: "real \<Rightarrow> real" where
  "sigma u = exp u / (1 + exp u)"

definition logit :: "real \<Rightarrow> real" where
  "logit q = ln (q / (1 - q))"

section \<open>Facts about rounding\<close>

lemma py_round_of_int: "py_round (of_int n) = n"
  by (simp add: py_round_def)

lemma py_round_lower: "x - 1 / 2 \<le> of_int (py_round x)"
  unfolding py_round_def Let_def by (auto; linarith)

lemma py_round_upper: "of_int (py_round x) \<le> x + 1 / 2"
  unfolding py_round_def Let_def by (auto; linarith)

lemma py_round_mono: "x \<le> y \<Longrightarrow> py_round x \<le> py_round y"
proof -
  assume xy: "x \<le> y"
  have fl: "\<lfloor>x\<rfloor> \<le> \<lfloor>y\<rfloor>" using xy by (rule floor_mono)
  show ?thesis
  proof (cases "\<lfloor>x\<rfloor> = \<lfloor>y\<rfloor>")
    case True
    then show ?thesis using xy unfolding py_round_def Let_def by auto
  next
    case False
    then have lt: "\<lfloor>x\<rfloor> + 1 \<le> \<lfloor>y\<rfloor>" using fl by simp
    have a: "py_round x \<le> \<lfloor>x\<rfloor> + 1" unfolding py_round_def Let_def by auto
    have b: "\<lfloor>y\<rfloor> \<le> py_round y" unfolding py_round_def Let_def by auto
    show ?thesis using a b lt by linarith
  qed
qed

lemma round_nd_mono: "x \<le> y \<Longrightarrow> round_nd x n \<le> round_nd y n"
  unfolding round_nd_def
  by (intro divide_right_mono iffD2 [OF of_int_le_iff] py_round_mono mult_right_mono) simp_all

lemma round_nd_of_int: "round_nd (of_int k) n = of_int k"
proof -
  have "of_int k * (10::real) ^ n = of_int (k * 10 ^ n)" by simp
  then have "py_round (of_int k * 10 ^ n) = k * 10 ^ n"
    using py_round_of_int by presburger
  then show ?thesis by (simp add: round_nd_def)
qed

lemma round_nd_between:
  assumes "of_int a \<le> x" and "x \<le> of_int b"
  shows "of_int a \<le> round_nd x n \<and> round_nd x n \<le> of_int b"
  using round_nd_mono [OF assms(1), of n] round_nd_mono [OF assms(2), of n]
  by (simp add: round_nd_of_int)

section \<open>The empty transaction list\<close>

lemma tx_window_Nil: "tx_window today days [] = []"
  by (simp add: tx_window_def List.map_filter_simps)

lemma group_loop_Nil:
  "group_loop [] =
     \<lparr>monthly_credits = [], monthly_debits = [], category_totals = [],
      negative_balance_events = 0\<rparr>"
  by (simp add: group_loop_def)

lemma dict_get_Nil: "dict_get [] k d = d"
  by (simp add: dict_get_def)

lemma points_at_empty:
  "stability_points 1 = 10" "income_points 0 = 10" "savings_points 0 = 25"
  "low_balance_points 0 = 150" "diversity_points 0 = 20"
  by (simp_all add: stability_points_def income_points_def savings_points_def
      low_balance_points_def diversity_points_def)

lemma round_nd_zero: "round_nd 0 n = 0"
  by (simp add: round_nd_def py_round_def)

lemma round_nd_one: "round_nd 1 n = 1"
  using round_nd_of_int [of 1 n] by simp

lemma round_empty_total: "round_nd (2960 / 7) 2 = 422.86"
  by (simp add: round_nd_def py_round_def)

lemma base_score_Nil:
  "calculate_base_score today [] days =
     \<lparr>income_stability_score = 10,
      avg_monthly_income_score = 10,
      savings_rate_score = 25,
      low_balance_score = 150,
      transaction_diversity_score = 20,
      base_total = 422.86,
      avg_monthly_income = 0,
      income_cv = 1,
      avg_monthly_savings = 0,
      low_balance_events = 0,
      category_breakdown = [],
      analysis_period_days = days,
      patterns = []\<rparr>"
  unfolding calculate_base_score_def tx_window_Nil group_loop_Nil Let_def
  by (simp add: mean_def dict_get_Nil points_at_empty round_nd_zero round_nd_one
      round_empty_total)

text \<open>
  C8. For the empty transaction list \<open>calculate_base_score\<close> returns an income stability
  score of 10, an income level score of 10, an average monthly income of 0, and a base
  total of at least 300, whatever the day and the analysis window.
\<close>

theorem empty_transactions_base_score:
  "income_stability_score (calculate_base_score today [] days) = 10
   \<and> avg_monthly_income_score (calculate_base_score today [] days) = 10
   \<and> avg_monthly_income (calculate_base_score today [] days) = 0
   \<and> 300 \<le> base_total (calculate_base_score today [] days)"
  by (simp add: base_score_Nil)

theorem empty_transactions_base_score_witness:
  "income_stability_score (calculate_base_score \<lparr>year = 2025, month = 3, day = 1\<rparr> [] 180) = 10
   \<and> avg_monthly_income (calculate_base_score \<lparr>year = 2025, month = 3, day = 1\<rparr> [] 180) = 0
   \<and> 300 \<le> base_total (calculate_base_score \<lparr>year = 2025, month = 3, day = 1\<rparr> [] 180)"
  using empty_transactions_base_score [of "\<lparr>year = 2025, month = 3, day = 1\<rparr>" 180]
  by simp

section \<open>Governance: comparing champion and challenger\<close>

lemmas registry_eval =
  compare_champion_challenger_def compare_metrics_def get_metrics_def
  get_model_version_by_alias_def registry_of_def metric_or_def
  ALIAS_CHAMPION_def ALIAS_CHALLENGER_def Let_def

lemma fl_zero: "fl 0 = 0"
  by (simp add: fl_def)

lemma fl_exact: "fl (1 / 2) = 1 / 2" "fl (3 / 4) = 3 / 4" "fl (- 1) = - 1"
  by code_simp+

text \<open>The four thresholds as doubles.\<close>

lemma fl_thresholds:
  "fl (1 / 50) = 5764607523034235 / 288230376151711744"
  "fl (1 / 200) = 5764607523034235 / 1152921504606846976"
  "fl (- (3 / 100)) = - (1080863910568919 / 36028797018963968)"
  "fl (- (1 / 100)) = - (5764607523034235 / 576460752303423488)"
  by code_simp+

text \<open>
  C4, as the claim states it, fails: with a champion whose KS statistic is 0 (AUC 0.75)
  and a challenger with KS 0.5 (AUC 0.75) the differences are 0.5 and 0, for which the
  stated rule promotes; the code reports a KS improvement of 0 and keeps the champion.
\<close>

theorem compare_zero_ks_counterexample:
  "ks (champion (compare_champion_challenger zero_ks_registry)) = 0
   \<and> ks (challenger (compare_champion_challenger zero_ks_registry)) = 0.5
   \<and> auc (champion (compare_champion_challenger zero_ks_registry)) = 0.75
   \<and> auc (challenger (compare_champion_challenger zero_ks_registry)) = 0.75
   \<and> compare_as_specified 0 0.5 0.75 0.75 = ''promote_challenger''
   \<and> recommendation (compare_champion_challenger zero_ks_registry) = ''keep_champion''
   \<and> ks_improvement (compare_champion_challenger zero_ks_registry) = 0"
  by (simp add: registry_eval zero_ks_registry_def compare_as_specified_def round_nd_zero
      fl_zero fl_exact fl_thresholds)

text \<open>
  C4, amended. For every state of the registry, with a missing metric read as -1 and all
  values doubles: the improvement of each metric is the difference challenger minus
  champion when the champion's value is positive, and 0 otherwise; the recommendation is
  the stated rule on the two improvements (promote first, then roll back, else keep),
  each threshold being the double nearest to its decimal; and the improvements are
  reported rounded to four decimals.
\<close>

theorem compare_guarded_differences:
  "let r = compare_champion_challenger s;
       ck = ks (champion r); hk = ks (challenger r);
       ca = auc (champion r); ha = auc (challenger r)
   in ck = (case snd (get_metrics s ALIAS_CHAMPION) ''ks_statistic'' of
              None \<Rightarrow> - 1 | Some v \<Rightarrow> fl v)
      \<and> hk = (case snd (get_metrics s ALIAS_CHALLENGER) ''ks_statistic'' of
                None \<Rightarrow> - 1 | Some v \<Rightarrow> fl v)
      \<and> ca = (case snd (get_metrics s ALIAS_CHAMPION) ''roc_auc'' of
                None \<Rightarrow> - 1 | Some v \<Rightarrow> fl v)
      \<and> ha = (case snd (get_metrics s ALIAS_CHALLENGER) ''roc_auc'' of
                None \<Rightarrow> - 1 | Some v \<Rightarrow> fl v)
      \<and> recommendation r =
          decision_as_specified (guarded_difference ck hk) (guarded_difference ca ha)
      \<and> ks_improvement r = fl (round_nd (guarded_difference ck hk) 4)
      \<and> auc_improvement r = fl (round_nd (guarded_difference ca ha) 4)
      \<and> (0 < ck \<longrightarrow> guarded_difference ck hk = fl (hk - ck))
      \<and> (\<not> 0 < ck \<longrightarrow> guarded_difference ck hk = 0)
      \<and> (0 < ca \<longrightarrow> guarded_difference ca ha = fl (ha - ca))
      \<and> (\<not> 0 < ca \<longrightarrow> guarded_difference ca ha = 0)"
  by (simp add: compare_champion_challenger_def compare_metrics_def metric_or_def
      decision_as_specified_def guarded_difference_def Let_def)

text \<open>The metrics of the example registries as the comparison reads them.\<close>

lemma better_ks_fields:
  "ks (champion (compare_champion_challenger better_ks_registry)) = fl (3 / 10)"
  "ks (challenger (compare_champion_challenger better_ks_registry)) = fl (33 / 100)"
  "auc (champion (compare_champion_challenger better_ks_registry)) = fl (4 / 5)"
  "auc (challenger (compare_champion_challenger better_ks_registry)) = fl (4 / 5)"
  by (simp_all add: registry_eval better_ks_registry_def)

lemma threshold_fields:
  "ks (champion (compare_champion_challenger threshold_registry)) = fl (1 / 10)"
  "ks (challenger (compare_champion_challenger threshold_registry)) = fl (3 / 25)"
  "auc (champion (compare_champion_challenger threshold_registry)) = fl (4 / 5)"
  "auc (challenger (compare_champion_challenger threshold_registry)) = fl (4 / 5)"
  by (simp_all add: registry_eval threshold_registry_def)

lemma worse_ks_fields:
  "ks (champion (compare_champion_challenger worse_ks_registry)) = fl (7 / 20)"
  "ks (challenger (compare_champion_challenger worse_ks_registry)) = fl (31 / 100)"
  "auc (champion (compare_champion_challenger worse_ks_registry)) = fl (21 / 25)"
  "auc (challenger (compare_champion_challenger worse_ks_registry)) = fl (83 / 100)"
  by (simp_all add: registry_eval worse_ks_registry_def)

lemma trainer_fields:
  "ks (champion (compare_champion_challenger trainer_registry)) = fl (3 / 10)"
  "ks (challenger (compare_champion_challenger trainer_registry)) = fl (31 / 100)"
  "auc (champion (compare_champion_challenger trainer_registry)) = - 1"
  "auc (challenger (compare_champion_challenger trainer_registry)) = - 1"
  by (simp_all add: registry_eval trainer_registry_def)

text \<open>The rule on these values, computed.\<close>

lemma decisions_computed:
  "decision_as_specified (guarded_difference (fl (3 / 10)) (fl (33 / 100)))
     (guarded_difference (fl (4 / 5)) (fl (4 / 5))) = ''promote_challenger''"
  "decision_as_specified (guarded_difference (fl (1 / 10)) (fl (3 / 25)))
     (guarded_difference (fl (4 / 5)) (fl (4 / 5))) = ''keep_champion''"
  "decision_as_specified (guarded_difference (fl (7 / 20)) (fl (31 / 100)))
     (guarded_difference (fl (21 / 25)) (fl (83 / 100))) = ''rollback_challenger''"
  "decision_as_specified (guarded_difference (fl (3 / 10)) (fl (31 / 100)))
     (guarded_difference (- 1) (- 1)) = ''keep_champion''"
  by code_simp+

lemma differences_computed:
  "guarded_difference (fl (1 / 10)) (fl (3 / 25)) = 720575940379279 / 36028797018963968"
  "guarded_difference (fl (1 / 10)) (fl (3 / 25)) < fl (1 / 50)"
  "guarded_difference (- 1) (- 1) = 0"
  by code_simp+

lemma reported_computed:
  "fl (round_nd (guarded_difference (fl (1 / 10)) (fl (3 / 25))) 4) = fl (1 / 50)"
  by code_simp

theorem compare_guarded_differences_witness:
  "recommendation (compare_champion_challenger better_ks_registry) = ''promote_challenger''
   \<and> recommendation (compare_champion_challenger threshold_registry) = ''keep_champion''
   \<and> ks_improvement (compare_champion_challenger threshold_registry) = fl (1 / 50)
   \<and> recommendation (compare_champion_challenger worse_ks_registry) = ''rollback_challenger''
   \<and> auc_improvement (compare_champion_challenger trainer_registry) = 0
   \<and> recommendation (compare_champion_challenger trainer_registry) = ''keep_champion''"
proof -
  note better = compare_guarded_differences
    [of better_ks_registry, unfolded Let_def better_ks_fields]
  note threshold = compare_guarded_differences
    [of threshold_registry, unfolded Let_def threshold_fields]
  note worse = compare_guarded_differences
    [of worse_ks_registry, unfolded Let_def worse_ks_fields]
  note trainer = compare_guarded_differences
    [of trainer_registry, unfolded Let_def trainer_fields]
  have "recommendation (compare_champion_challenger better_ks_registry) =
      decision_as_specified (guarded_difference (fl (3 / 10)) (fl (33 / 100)))
        (guarded_difference (fl (4 / 5)) (fl (4 / 5)))"
    using better by blast
  then have a: "recommendation (compare_champion_challenger better_ks_registry)
      = ''promote_challenger''"
    by (simp only: decisions_computed)
  have "recommendation (compare_champion_challenger threshold_registry) =
      decision_as_specified (guarded_difference (fl (1 / 10)) (fl (3 / 25)))
        (guarded_difference (fl (4 / 5)) (fl (4 / 5)))"
    using threshold by blast
  then have b: "recommendation (compare_champion_challenger threshold_registry)
      = ''keep_champion''"
    by (simp only: decisions_computed)
  have "ks_improvement (compare_champion_challenger threshold_registry) =
      fl (round_nd (guarded_difference (fl (1 / 10)) (fl (3 / 25))) 4)"
    using threshold by blast
  then have c: "ks_improvement (compare_champion_challenger threshold_registry) = fl (1 / 50)"
    by (simp only: reported_computed)
  have "recommendation (compare_champion_challenger worse_ks_registry) =
      decision_as_specified (guarded_difference (fl (7 / 20)) (fl (31 / 100)))
        (guarded_difference (fl (21 / 25)) (fl (83 / 100)))"
    using worse by blast
  then have d: "recommendation (compare_champion_challenger worse_ks_registry)
      = ''rollback_challenger''"
    by (simp only: decisions_computed)
  have "auc_improvement (compare_champion_challenger trainer_registry) =
      fl (round_nd (guarded_difference (- 1) (- 1)) 4)"
    using trainer by blast
  then have e: "auc_improvement (compare_champion_challenger trainer_registry) = 0"
    by (simp only: differences_computed round_nd_zero fl_zero)
  have "recommendation (compare_champion_challenger trainer_registry) =
      decision_as_specified (guarded_difference (fl (3 / 10)) (fl (31 / 100)))
        (guarded_difference (- 1) (- 1))"
    using trainer by blast
  then have f: "recommendation (compare_champion_challenger trainer_registry)
      = ''keep_champion''"
    by (simp only: decisions_computed)
  from a b c d e f show ?thesis by blast
qed

text \<open>
  C10. When the champion's metrics hold neither a KS statistic nor an AUC (both then
  default to -1), both improvements are 0 and the recommendation is to keep the
  champion, whatever the challenger's metrics are.
\<close>

theorem compare_absent_champion_metrics:
  assumes "snd (get_metrics s ALIAS_CHAMPION) ''ks_statistic'' = None"
    and "snd (get_metrics s ALIAS_CHAMPION) ''roc_auc'' = None"
  shows "ks (champion (compare_champion_challenger s)) = - 1
         \<and> auc (champion (compare_champion_challenger s)) = - 1
         \<and> ks_improvement (compare_champion_challenger s) = 0
         \<and> auc_improvement (compare_champion_challenger s) = 0
         \<and> recommendation (compare_champion_challenger s) = ''keep_champion''"
  using assms
  by (simp add: compare_champion_challenger_def compare_metrics_def metric_or_def
      round_nd_zero fl_zero fl_thresholds Let_def)

theorem compare_absent_champion_metrics_witness:
  "snd (get_metrics bare_champion_registry ALIAS_CHAMPION) ''ks_statistic'' = None
   \<and> snd (get_metrics bare_champion_registry ALIAS_CHAMPION) ''roc_auc'' = None
   \<and> ks (challenger (compare_champion_challenger bare_champion_registry)) = fl 0.9
   \<and> 0.89 < fl 0.9
   \<and> recommendation (compare_champion_challenger bare_champion_registry) = ''keep_champion''"
proof -
  have h1: "snd (get_metrics bare_champion_registry ALIAS_CHAMPION) ''ks_statistic'' = None"
    and h2: "snd (get_metrics bare_champion_registry ALIAS_CHAMPION) ''roc_auc'' = None"
    by (simp_all add: registry_eval bare_champion_registry_def)
  have "ks (challenger (compare_champion_challenger bare_champion_registry)) = fl 0.9"
    by (simp add: registry_eval bare_champion_registry_def)
  moreover have "0.89 < fl 0.9"
    by code_simp
  ultimately show ?thesis
    using compare_absent_champion_metrics [OF h1 h2] h1 h2 by simp
qed
section \<open>Governance: promoting the challenger\<close>

lemma promote_no_challenger:
  "aliases s ALIAS_CHALLENGER = None \<Longrightarrow> promote_challenger_to_champion s = (s, None)"
  by (simp add: promote_challenger_to_champion_def get_model_version_by_alias_def)

lemma promote_both_present:
  assumes "aliases s ALIAS_CHALLENGER = Some c" and "aliases s ALIAS_CHAMPION = Some p"
  shows "snd (promote_challenger_to_champion s) = Some c"
    and "aliases (fst (promote_challenger_to_champion s)) ALIAS_CHAMPION = Some c"
    and "aliases (fst (promote_challenger_to_champion s)) ALIAS_CHALLENGER = None"
    and "version_tags (fst (promote_challenger_to_champion s)) p ''retired'' = Some ''true''"
  using assms
  by (simp_all add: promote_challenger_to_champion_def get_model_version_by_alias_def
      delete_registered_model_alias_def set_registered_model_alias_def
      set_model_version_tag_def ALIAS_CHAMPION_def ALIAS_CHALLENGER_def Let_def)

text \<open>
  C7. With a challenger (version 2) and no champion, \<open>promote_challenger_to_champion\<close>
  returns \<open>None\<close> and leaves the registry as it was: the challenger is not promoted.
\<close>

theorem promote_first_challenger_noop:
  "aliases first_challenger_registry ALIAS_CHALLENGER = Some ''2''
   \<and> aliases first_challenger_registry ALIAS_CHAMPION = None
   \<and> promote_challenger_to_champion first_challenger_registry
       = (first_challenger_registry, None)"
  by (simp add: promote_challenger_to_champion_def get_model_version_by_alias_def
      first_challenger_registry_def registry_of_def ALIAS_CHAMPION_def ALIAS_CHALLENGER_def)

section \<open>Qualitative adjuster: failures and clamping\<close>

lemma adjustment_body_clamped:
  "adjustment_body b = Inr r \<Longrightarrow> - 50 \<le> adjustment r \<and> adjustment r \<le> 50"
  by (auto simp: adjustment_body_def
      split: provider_behaviour.splits json.splits sum.splits if_splits)

lemma adjustment_failures:
  "get_score_adjustment CallRaises = Inr fallback"
  "get_score_adjustment NoChoices = Inr fallback"
  "get_score_adjustment NoContent = Inr fallback"
  "get_score_adjustment (NotJson s) = Inr fallback"
  by (simp_all add: get_score_adjustment_def adjustment_body_def is_Exception_def)

lemma adjustment_not_loadable:
  assumes "\<not> loadable data"
  shows "get_score_adjustment (Json rawtext data) = Inr fallback"
  using assms
  by (simp add: get_score_adjustment_def adjustment_body_def is_Exception_def)

lemma adjustment_not_object:
  assumes "\<forall>kvs. data \<noteq> JObject kvs"
  shows "get_score_adjustment (Json rawtext data) = Inr fallback"
  using assms
  by (cases data) (simp_all add: get_score_adjustment_def adjustment_body_def is_Exception_def)

lemma adjustment_object:
  assumes "loadable (JObject kvs)"
  shows "get_score_adjustment (Json rawtext (JObject kvs)) =
     (case py_int (object_get kvs ''adjustment'' (JInt 0)) of
        Inl e \<Rightarrow> Inr fallback
      | Inr n \<Rightarrow>
          Inr \<lparr>adjustment = max (- 50) (min 50 n),
               reasoning = object_get kvs ''reasoning'' (JArray []),
               raw = rawtext\<rparr>)"
  using assms
  by (simp add: get_score_adjustment_def adjustment_body_def is_Exception_def
      split: sum.splits)

lemma adjustment_object_failing:
  assumes "py_int (object_get kvs ''adjustment'' (JInt 0)) = Inl e"
  shows "get_score_adjustment (Json rawtext (JObject kvs)) = Inr fallback"
  using assms adjustment_object [of kvs rawtext] adjustment_not_loadable [of "JObject kvs" rawtext]
  by (cases "loadable (JObject kvs)") simp_all

text \<open>
  C5. Whatever the provider does, \<open>get_score_adjustment\<close> returns a result and raises
  nothing, and the adjustment of the result lies between -50 and 50. The result is the
  fallback (adjustment 0 and the single reasoning string) when the call raises, when the
  response has no choice or no content, when \<open>json.loads\<close> raises, when the content is
  not a JSON object, and when the value of \<open>adjustment\<close> is null, not a number, infinite,
  a list, an object or a string that is not an integer. Otherwise the adjustment is the
  integer value \<open>n\<close> of the provider's answer (0 when the key is missing) clamped to
  \<open>max(-50, min(50, n))\<close>, with the provider's reasoning and raw text.
\<close>

theorem get_score_adjustment_total:
  "(\<exists>r. get_score_adjustment b = Inr r \<and> - 50 \<le> adjustment r \<and> adjustment r \<le> 50)
   \<and> get_score_adjustment CallRaises = Inr fallback
   \<and> get_score_adjustment NoChoices = Inr fallback
   \<and> get_score_adjustment NoContent = Inr fallback
   \<and> get_score_adjustment (NotJson s) = Inr fallback
   \<and> (\<not> loadable data \<or> (\<forall>kvs'. data \<noteq> JObject kvs')
        \<longrightarrow> get_score_adjustment (Json rawtext data) = Inr fallback)
   \<and> (map_of (rev kvs) ''adjustment'' = Some JNull
        \<or> map_of (rev kvs) ''adjustment'' = Some JNaN
        \<or> map_of (rev kvs) ''adjustment'' = Some (JInfinity neg)
        \<or> map_of (rev kvs) ''adjustment'' = Some (JArray xs)
        \<or> map_of (rev kvs) ''adjustment'' = Some (JObject ys)
        \<or> (map_of (rev kvs) ''adjustment'' = Some (JString str) \<and> int_of_str str = None)
        \<or> (map_of (rev kvs) ''adjustment'' = Some (JFloat x) \<and> 2 ^ 1024 \<le> \<bar>fl x\<bar>)
        \<longrightarrow> get_score_adjustment (Json rawtext (JObject kvs)) = Inr fallback)
   \<and> (loadable (JObject kvs)
        \<and> ((map_of (rev kvs) ''adjustment'' = None \<and> n = 0)
           \<or> map_of (rev kvs) ''adjustment'' = Some (JInt n)
           \<or> (map_of (rev kvs) ''adjustment'' = Some (JBool True) \<and> n = 1)
           \<or> (map_of (rev kvs) ''adjustment'' = Some (JBool False) \<and> n = 0)
           \<or> (map_of (rev kvs) ''adjustment'' = Some (JFloat x) \<and> \<bar>fl x\<bar> < 2 ^ 1024
               \<and> n = trunc (fl x))
           \<or> (map_of (rev kvs) ''adjustment'' = Some (JString str)
               \<and> int_of_str str = Some n))
        \<longrightarrow> get_score_adjustment (Json rawtext (JObject kvs)) =
              Inr \<lparr>adjustment = max (- 50) (min 50 n),
                   reasoning = object_get kvs ''reasoning'' (JArray []),
                   raw = rawtext\<rparr>)
   \<and> adjustment fallback = 0
   \<and> llm_result.reasoning fallback = JArray [JString ''LLM analysis unavailable.'']
   \<and> raw fallback = []"
proof -
  have total: "\<exists>r. get_score_adjustment b = Inr r \<and> - 50 \<le> adjustment r \<and> adjustment r \<le> 50"
  proof (cases "adjustment_body b")
    case (Inl e)
    then show ?thesis
      by (simp add: get_score_adjustment_def is_Exception_def fallback_def)
  next
    case (Inr r)
    then show ?thesis
      using adjustment_body_clamped [OF Inr] by (simp add: get_score_adjustment_def)
  qed
  have bad: "get_score_adjustment (Json rawtext (JObject kvs)) = Inr fallback"
    if "map_of (rev kvs) ''adjustment'' = Some JNull
        \<or> map_of (rev kvs) ''adjustment'' = Some JNaN
        \<or> map_of (rev kvs) ''adjustment'' = Some (JInfinity neg)
        \<or> map_of (rev kvs) ''adjustment'' = Some (JArray xs)
        \<or> map_of (rev kvs) ''adjustment'' = Some (JObject ys)
        \<or> (map_of (rev kvs) ''adjustment'' = Some (JString str) \<and> int_of_str str = None)
        \<or> (map_of (rev kvs) ''adjustment'' = Some (JFloat x) \<and> 2 ^ 1024 \<le> \<bar>fl x\<bar>)"
  proof -
    have "\<exists>e. py_int (object_get kvs ''adjustment'' (JInt 0)) = Inl e"
      using that by (auto simp: object_get_def dict_get_def Let_def)
    then show ?thesis using adjustment_object_failing by blast
  qed
  have good: "get_score_adjustment (Json rawtext (JObject kvs)) =
              Inr \<lparr>adjustment = max (- 50) (min 50 n),
                   reasoning = object_get kvs ''reasoning'' (JArray []),
                   raw = rawtext\<rparr>"
    if "loadable (JObject kvs)"
      and "(map_of (rev kvs) ''adjustment'' = None \<and> n = 0)
           \<or> map_of (rev kvs) ''adjustment'' = Some (JInt n)
           \<or> (map_of (rev kvs) ''adjustment'' = Some (JBool True) \<and> n = 1)
           \<or> (map_of (rev kvs) ''adjustment'' = Some (JBool False) \<and> n = 0)
           \<or> (map_of (rev kvs) ''adjustment'' = Some (JFloat x) \<and> \<bar>fl x\<bar> < 2 ^ 1024
               \<and> n = trunc (fl x))
           \<or> (map_of (rev kvs) ''adjustment'' = Some (JString str)
               \<and> int_of_str str = Some n)"
  proof -
    have "py_int (object_get kvs ''adjustment'' (JInt 0)) = Inr n"
      using that(2) by (auto simp: object_get_def dict_get_def Let_def)
    then show ?thesis using adjustment_object [OF that(1), of rawtext] by simp
  qed
  have unload: "get_score_adjustment (Json rawtext data) = Inr fallback"
    if "\<not> loadable data \<or> (\<forall>kvs'. data \<noteq> JObject kvs')"
    using that adjustment_not_loadable [of data rawtext] adjustment_not_object [of data rawtext]
    by blast
  show ?thesis
    using total bad good unload adjustment_failures
    by (simp add: fallback_def)
qed

text \<open>The number of digits of a power of ten, and of a small number.\<close>

lemma num_digits_power: "num_digits (10 ^ k) = Suc k"
proof (induction k)
  case 0
  show ?case by (simp add: num_digits.simps)
next
  case (Suc k)
  have "\<not> (10::nat) ^ Suc k < 10" by simp
  then have "num_digits (10 ^ Suc k) = Suc (num_digits (10 ^ Suc k div 10))"
    by (subst num_digits.simps) simp
  then show ?case using Suc by simp
qed

lemma power_not_loadable:
  assumes "MAX_STR_DIGITS \<le> k"
  shows "\<not> loadable (JObject [(key, JInt (10 ^ k))])"
proof -
  have "nat \<bar>10 ^ k :: int\<bar> = 10 ^ k"
    by (simp add: nat_power_eq)
  then have "num_digits (nat \<bar>10 ^ k :: int\<bar>) = Suc k"
    by (simp only: num_digits_power)
  then have "\<not> loadable (JInt (10 ^ k))"
    using assms by (simp only: loadable.simps)
  then show ?thesis
    by (simp only: loadable.simps list.map snd_conv list.pred_inject simp_thms)
qed

lemma long_integer_not_loadable: "\<not> loadable (JObject [(key, JInt (10 ^ 4300))])"
  by (rule power_not_loadable) (simp add: MAX_STR_DIGITS_def)

text \<open>The conversions of the example answers, computed.\<close>

lemma conversions_computed:
  "int_of_str ''abc'' = None"
  "int_of_str separator_nine = None"
  "int_of_str nbsp_nine = Some 9"
  "int_of_str '' -12 '' = Some (- 12)"
  "int_of_str ''1_000'' = Some 1000"
  "\<bar>fl (- 120.7)\<bar> < 2 ^ 1024"
  "trunc (fl (- 120.7)) = - 120"
  "\<bar>fl 2.9999999999999999999\<bar> < 2 ^ 1024"
  "trunc (fl 2.9999999999999999999) = 3"
  by code_simp+

theorem get_score_adjustment_total_witness:
  "get_score_adjustment CallRaises = Inr fallback
   \<and> get_score_adjustment (Json ''[]'' (JArray [])) = Inr fallback
   \<and> get_score_adjustment (answering (quoted ''abc'') (JString ''abc'')) = Inr fallback
   \<and> get_score_adjustment (answering separator_nine_text (JString separator_nine))
       = Inr fallback
   \<and> get_score_adjustment eager_provider =
       Inr \<lparr>adjustment = 50, reasoning = JArray [],
            raw = ''{'' @ quoted ''adjustment'' @ '': 999}''\<rparr>
   \<and> get_score_adjustment (answering ''-120.7'' (JFloat (- 120.7))) =
       Inr \<lparr>adjustment = - 50, reasoning = JArray [],
            raw = ''{'' @ quoted ''adjustment'' @ '': -120.7}''\<rparr>
   \<and> get_score_adjustment (answering ''7'' (JInt 7)) =
       Inr \<lparr>adjustment = 7, reasoning = JArray [],
            raw = ''{'' @ quoted ''adjustment'' @ '': 7}''\<rparr>
   \<and> get_score_adjustment (answering (quoted '' -12 '') (JString '' -12 '')) =
       Inr \<lparr>adjustment = - 12, reasoning = JArray [],
            raw = ''{'' @ quoted ''adjustment'' @ '': '' @ quoted '' -12 '' @ ''}''\<rparr>
   \<and> get_score_adjustment (answering nbsp_nine_text (JString nbsp_nine)) =
       Inr \<lparr>adjustment = 9, reasoning = JArray [],
            raw = ''{'' @ quoted ''adjustment'' @ '': '' @ nbsp_nine_text @ ''}''\<rparr>
   \<and> get_score_adjustment twice_provider =
       Inr \<lparr>adjustment = 50, reasoning = JArray [], raw = twice_text\<rparr>
   \<and> get_score_adjustment long_integer_provider = Inr fallback"
proof -
  note t = get_score_adjustment_total
  have a: "get_score_adjustment CallRaises = Inr fallback"
    using t [of CallRaises] by blast
  have b: "get_score_adjustment (Json ''[]'' (JArray [])) = Inr fallback"
    using t [where data = "JArray []" and rawtext = "''[]''"] by simp
  have c: "get_score_adjustment (answering (quoted ''abc'') (JString ''abc'')) = Inr fallback"
    using t [where kvs = "[(''adjustment'', JString ''abc'')]" and str = "''abc''"
        and rawtext = "''{'' @ quoted ''adjustment'' @ '': '' @ quoted ''abc'' @ ''}''"]
    by (simp add: answering_def conversions_computed)
  have d: "get_score_adjustment (answering separator_nine_text (JString separator_nine))
      = Inr fallback"
    using t [where kvs = "[(''adjustment'', JString separator_nine)]" and str = separator_nine
        and rawtext = "''{'' @ quoted ''adjustment'' @ '': '' @ separator_nine_text @ ''}''"]
    by (simp add: answering_def conversions_computed)
  have e: "get_score_adjustment eager_provider =
       Inr \<lparr>adjustment = 50, reasoning = JArray [],
            raw = ''{'' @ quoted ''adjustment'' @ '': 999}''\<rparr>"
    using t [where kvs = "[(''adjustment'', JInt 999)]" and n = 999
        and rawtext = "''{'' @ quoted ''adjustment'' @ '': 999}''"]
    by (simp add: eager_provider_def object_get_def dict_get_def num_digits.simps MAX_STR_DIGITS_def)
  have f: "get_score_adjustment (answering ''-120.7'' (JFloat (- 120.7))) =
       Inr \<lparr>adjustment = - 50, reasoning = JArray [],
            raw = ''{'' @ quoted ''adjustment'' @ '': -120.7}''\<rparr>"
    using t [where kvs = "[(''adjustment'', JFloat (- 120.7))]" and x = "- 120.7"
        and n = "- 120" and rawtext = "''{'' @ quoted ''adjustment'' @ '': -120.7}''"]
      conversions_computed(6,7)
    by (simp add: answering_def object_get_def dict_get_def num_digits.simps MAX_STR_DIGITS_def)
  have g: "get_score_adjustment (answering ''7'' (JInt 7)) =
       Inr \<lparr>adjustment = 7, reasoning = JArray [],
            raw = ''{'' @ quoted ''adjustment'' @ '': 7}''\<rparr>"
    using t [where kvs = "[(''adjustment'', JInt 7)]" and n = 7
        and rawtext = "''{'' @ quoted ''adjustment'' @ '': 7}''"]
    by (simp add: answering_def object_get_def dict_get_def num_digits.simps MAX_STR_DIGITS_def)
  have h: "get_score_adjustment (answering (quoted '' -12 '') (JString '' -12 '')) =
       Inr \<lparr>adjustment = - 12, reasoning = JArray [],
            raw = ''{'' @ quoted ''adjustment'' @ '': '' @ quoted '' -12 '' @ ''}''\<rparr>"
    using t [where kvs = "[(''adjustment'', JString '' -12 '')]" and str = "'' -12 ''"
        and n = "- 12"
        and rawtext = "''{'' @ quoted ''adjustment'' @ '': '' @ quoted '' -12 '' @ ''}''"]
    by (simp add: answering_def object_get_def dict_get_def conversions_computed)
  have i: "get_score_adjustment (answering nbsp_nine_text (JString nbsp_nine)) =
       Inr \<lparr>adjustment = 9, reasoning = JArray [],
            raw = ''{'' @ quoted ''adjustment'' @ '': '' @ nbsp_nine_text @ ''}''\<rparr>"
    using t [where kvs = "[(''adjustment'', JString nbsp_nine)]" and str = nbsp_nine
        and n = 9
        and rawtext = "''{'' @ quoted ''adjustment'' @ '': '' @ nbsp_nine_text @ ''}''"]
    by (simp add: answering_def object_get_def dict_get_def conversions_computed)
  have j: "get_score_adjustment twice_provider =
       Inr \<lparr>adjustment = 50, reasoning = JArray [], raw = twice_text\<rparr>"
    using t [where kvs = "[(''adjustment'', JInt 5), (''adjustment'', JInt 70)]" and n = 70
        and rawtext = twice_text]
    by (simp add: twice_provider_def object_get_def dict_get_def num_digits.simps MAX_STR_DIGITS_def)
  have k: "get_score_adjustment long_integer_provider = Inr fallback"
    using t [where data = "JObject [(''adjustment'', JInt (10 ^ 4300))]"
        and rawtext = "''{'' @ quoted ''adjustment'' @ '': 1'' @ replicate 4300 (CHR ''0'') @ ''}''"]
      long_integer_not_loadable [of "''adjustment''"]
    by (simp only: long_integer_provider_def simp_thms)
  from a b c d e f g h i j k show ?thesis by blast
qed
section \<open>Feature attribution: the ranking\<close>

lemma keys_ten: "all_keys_of ten_records = [''age'', ''income'', ''tenure'']"
  unfolding all_keys_of_def ten_records_def startswith_underscore_def
  by code_simp

lemma mean_abs_ten:
  "mean_abs_columns (map (\<lambda>row. [0, 1 / 2, 0]) (feature_matrix keys ten_records)) = [0, 1 / 2, 0]"
  unfolding mean_abs_columns_def feature_matrix_def ten_records_def
  by (simp add: numeral_eq_Suc transpose.simps)

lemma round_half: "round_nd (1 / 2) 6 = 1 / 2"
  by (simp add: round_nd_def py_round_def)

lemma ranking_ten:
  "feature_importances (analyse_recent_defaults day0 one_feature_explainer ten_records)
     = [(''income'', 1 / 2), (''age'', 0), (''tenure'', 0)]"
  unfolding analyse_recent_defaults_def Let_def keys_ten one_feature_explainer_def
  apply (simp add: mean_abs_ten round_half round_nd_zero)
  apply (simp add: ten_records_def)
  done

lemma ranked_descending:
  "sorted_wrt (\<lambda>a b. snd b \<le> snd a) (sort_key (\<lambda>fv. - snd fv) (xs :: ('a \<times> real) list))"
proof -
  have "sorted (map (\<lambda>fv. - snd fv) (sort_key (\<lambda>fv. - snd fv) xs))"
    by (rule sorted_sort_key)
  then show ?thesis by (simp add: sorted_wrt_map)
qed

lemma rounded_descending:
  assumes "sorted_wrt (\<lambda>a b. snd b \<le> snd a) (xs :: ('a \<times> real) list)"
  shows "sorted_wrt (\<lambda>a b. snd b \<le> snd a) (map (\<lambda>fv. (fst fv, round_nd (snd fv) n)) xs)"
proof -
  have "sorted_wrt (\<lambda>a b. round_nd (snd b) n \<le> round_nd (snd a) n) xs"
    using assms by (rule sorted_wrt_mono_rel [rotated]) (simp add: round_nd_mono)
  then show ?thesis by (simp add: sorted_wrt_map)
qed

text \<open>
  C9, amended. The returned ranking is in non-increasing order of the mean absolute
  attribution (equal values may follow each other), and the top drivers are the names
  of its first ten entries.
\<close>

theorem ranking_non_increasing:
  "sorted_wrt (\<lambda>a b. snd b \<le> snd a)
     (feature_importances (analyse_recent_defaults today compute_shap feature_dicts))
   \<and> top_drivers (analyse_recent_defaults today compute_shap feature_dicts)
       = map fst (take 10 (feature_importances
                             (analyse_recent_defaults today compute_shap feature_dicts)))"
  by (simp add: analyse_recent_defaults_def Let_def TOP_K_FEATURES_def
      rounded_descending ranked_descending split: option.split prod.split)

text \<open>
  C9, as the claim states it, fails: on ten records whose model uses one feature out of
  three, the two unused features both have mean absolute attribution 0, so the ranking
  is not strictly descending.
\<close>

theorem ranking_ties_counterexample:
  "length ten_records = 10
   \<and> feature_importances (analyse_recent_defaults day0 one_feature_explainer ten_records)
       = [(''income'', 1 / 2), (''age'', 0), (''tenure'', 0)]
   \<and> \<not> sorted_wrt (\<lambda>a b. snd b < snd a)
         (feature_importances (analyse_recent_defaults day0 one_feature_explainer ten_records))"
proof -
  have "length ten_records = 10"
    by (simp add: ten_records_def)
  then show ?thesis
    by (simp add: ranking_ten)
qed

theorem ranking_non_increasing_witness:
  "top_drivers (analyse_recent_defaults day0 one_feature_explainer ten_records)
     = [''income'', ''age'', ''tenure'']
   \<and> sorted_wrt (\<lambda>a b. snd b \<le> snd a)
       (feature_importances (analyse_recent_defaults day0 one_feature_explainer ten_records))"
  using ranking_non_increasing [of day0 one_feature_explainer ten_records]
  by (simp add: ranking_ten)

section \<open>Hybrid pipeline: the ranges of the result\<close>

lemma new_default_pdo: "new_PDOTransformer 50 500 1 = Inr default_pdo"
  by (simp add: new_PDOTransformer_def py_log_def default_pdo_def)

lemma base_total_range:
  "300 \<le> base_total (calculate_base_score today txs days)
   \<and> base_total (calculate_base_score today txs days) \<le> 700"
proof -
  obtain y where "base_total (calculate_base_score today txs days)
      = round_nd (max 300 (min 700 y)) 2"
    by (simp only: calculate_base_score_def Let_def BaseScoreResult.select_convs)
  moreover have "of_int 300 \<le> max 300 (min 700 y)" "max 300 (min 700 y) \<le> of_int 700"
    by simp_all
  ultimately show ?thesis
    using round_nd_between [of 300 "max 300 (min 700 y)" 700 2] by simp
qed

lemma crb_contribution_range:
  "0 \<le> CrbMetrics.crb_contribution (extract_crb_metrics raw_r)
   \<and> CrbMetrics.crb_contribution (extract_crb_metrics raw_r) \<le> 150"
proof -
  obtain y where "CrbMetrics.crb_contribution (extract_crb_metrics raw_r)
      = round_nd (max 0 (min 150 y)) 2"
    by (simp only: extract_crb_metrics_def Let_def CrbMetrics.select_convs)
  moreover have "of_int 0 \<le> max 0 (min 150 y)" "max 0 (min 150 y) \<le> of_int 150"
    by simp_all
  ultimately show ?thesis
    using round_nd_between [of 0 "max 0 (min 150 y)" 150 2] by simp
qed

lemma score_to_pd_round: "score_to_pd s = round_nd (unrounded_pd s) 6"
  by (simp add: score_to_pd_def unrounded_pd_def)

lemma exp_5_le: "exp (5::real) \<le> 243"
proof -
  have "exp (5::real) = exp 1 ^ 5"
    using exp_of_nat_mult [of 5 "1::real"] by simp
  also have "\<dots> \<le> 3 ^ 5"
    by (rule power_mono [OF exp_le]) simp
  finally show ?thesis by simp
qed

lemma exp_3_le: "exp (3::real) \<le> 27"
proof -
  have "exp (3::real) = exp 1 ^ 3"
    using exp_of_nat_mult [of 3 "1::real"] by simp
  also have "\<dots> \<le> 3 ^ 3"
    by (rule power_mono [OF exp_le]) simp
  finally show ?thesis by simp
qed

lemma unrounded_pd_bounds:
  assumes "250 \<le> s" and "s \<le> 900"
  shows "1 / 244 \<le> unrounded_pd s" and "unrounded_pd s \<le> 27 / 28"
proof -
  define e where "e = exp (0.012 * (s - 500))"
  have pos: "0 < e" by (simp add: e_def)
  have "0.012 * (s - 500) \<le> 5" using assms by simp
  then have "e \<le> exp 5" unfolding e_def by (simp only: exp_le_cancel_iff)
  then have up: "e \<le> 243" using exp_5_le by linarith
  have "- 3 \<le> 0.012 * (s - 500)" using assms by simp
  then have "exp (- 3) \<le> e" unfolding e_def by (simp only: exp_le_cancel_iff)
  moreover have "1 / 27 \<le> exp (- (3::real))"
    using exp_3_le by (simp add: exp_minus field_simps)
  ultimately have lo: "1 / 27 \<le> e" by linarith
  have pd: "unrounded_pd s = 1 / (1 + e)"
    by (simp only: unrounded_pd_def e_def)
  show "1 / 244 \<le> unrounded_pd s"
    unfolding pd using up pos by (simp add: field_simps)
  show "unrounded_pd s \<le> 27 / 28"
    unfolding pd using lo pos by (simp add: field_simps)
qed

lemma round_pd_low: "round_nd (1 / 244) 6 = 2049 / 500000"
  by (simp add: round_nd_def py_round_def)

lemma round_pd_high: "round_nd (27 / 28) 6 = 482143 / 500000"
  by (simp add: round_nd_def py_round_def)

lemma round_again_low: "round_nd (2049 / 500000) 6 = 2049 / 500000"
  by (simp add: round_nd_def py_round_def)

lemma round_again_high: "round_nd (482143 / 500000) 6 = 482143 / 500000"
  by (simp add: round_nd_def py_round_def)

lemma score_to_pd_bounds:
  assumes "250 \<le> s" and "s \<le> 900"
  shows "2049 / 500000 \<le> round_nd (score_to_pd s) 6"
    and "round_nd (score_to_pd s) 6 \<le> 482143 / 500000"
proof -
  have a: "2049 / 500000 \<le> score_to_pd s"
    using round_nd_mono [OF unrounded_pd_bounds(1) [OF assms], of 6]
    by (simp only: score_to_pd_round round_pd_low)
  have b: "score_to_pd s \<le> 482143 / 500000"
    using round_nd_mono [OF unrounded_pd_bounds(2) [OF assms], of 6]
    by (simp only: score_to_pd_round round_pd_high)
  show "2049 / 500000 \<le> round_nd (score_to_pd s) 6"
    using round_nd_mono [OF a, of 6] by (simp only: round_again_low)
  show "round_nd (score_to_pd s) 6 \<le> 482143 / 500000"
    using round_nd_mono [OF b, of 6] by (simp only: round_again_high)
qed

lemma get_score_adjustment_returns:
  "\<exists>r. get_score_adjustment b = Inr r \<and> - 50 \<le> adjustment r \<and> adjustment r \<le> 50"
proof (cases "adjustment_body b")
  case (Inl e)
  then show ?thesis
    by (simp add: get_score_adjustment_def is_Exception_def fallback_def)
next
  case (Inr r)
  then show ?thesis
    using adjustment_body_clamped [OF Inr] by (simp add: get_score_adjustment_def)
qed

lemma contribution_range:
  "0 \<le> (case (if truthy crb then map_option extract_crb_metrics crb else None) of
           None \<Rightarrow> 0 | Some m \<Rightarrow> CrbMetrics.crb_contribution m)
   \<and> (case (if truthy crb then map_option extract_crb_metrics crb else None) of
           None \<Rightarrow> 0 | Some m \<Rightarrow> CrbMetrics.crb_contribution m) \<le> 150"
  using crb_contribution_range by (cases crb) auto

lemma transform_score_range:
  "300 \<le> score (transform t p) \<and> score (transform t p) \<le> 850"
  by (simp add: transform_def Let_def)

lemma transform_pd: "PDOResult.pd_probability (transform t p) = round_nd p 6"
  by (simp add: transform_def Let_def)

text \<open>
  C1. For every input (day, transformer, provider behaviour, transactions, bureau
  report, window) the hybrid pipeline returns a result in which the final score lies in
  [300, 850], the base total in [300, 700], the bureau contribution in [0, 150], the
  adjustment in [-50, 50], and the probability of default strictly between 0 and 1.
\<close>

theorem hybrid_score_ranges:
  "\<exists>r. compute_hybrid_score today pdo_t provider cid txs crb days target = Inr r
     \<and> 300 \<le> final_score r \<and> final_score r \<le> 850
     \<and> base_total (base_result r) = HybridScoreResult.base_score r
     \<and> 300 \<le> HybridScoreResult.base_score r \<and> HybridScoreResult.base_score r \<le> 700
     \<and> 0 \<le> HybridScoreResult.crb_contribution r \<and> HybridScoreResult.crb_contribution r \<le> 150
     \<and> - 50 \<le> llm_adjustment r \<and> llm_adjustment r \<le> 50
     \<and> 0 < HybridScoreResult.pd_probability r \<and> HybridScoreResult.pd_probability r < 1"
proof -
  obtain llm where llm: "get_score_adjustment provider = Inr llm"
    and adj: "- 50 \<le> adjustment llm" "adjustment llm \<le> 50"
    using get_score_adjustment_returns by blast
  define base where "base = calculate_base_score today txs days"
  define metrics where
    "metrics = (if truthy crb then map_option extract_crb_metrics crb else None)"
  define c where
    "c = (case metrics of None \<Rightarrow> 0 | Some m \<Rightarrow> CrbMetrics.crb_contribution m)"
  define i where "i = base_total base + c + real_of_int (adjustment llm)"
  have b: "300 \<le> base_total base" "base_total base \<le> 700"
    using base_total_range [of today txs days] by (simp_all add: base_def)
  have cr: "0 \<le> c" "c \<le> 150"
    using contribution_range [of crb] by (simp_all add: c_def metrics_def)
  have "250 \<le> i" "i \<le> 900"
    using b cr adj by (simp_all add: i_def)
  then have pd: "2049 / 500000 \<le> round_nd (score_to_pd i) 6"
    "round_nd (score_to_pd i) 6 \<le> 482143 / 500000"
    by (rule score_to_pd_bounds)+
  have "compute_hybrid_score today pdo_t provider cid txs crb days target =
    Inr \<lparr>customer_id = cid, base_score = base_total base, crb_contribution = c,
         llm_adjustment = adjustment llm,
         pd_probability = PDOResult.pd_probability (transform pdo_t (score_to_pd i)),
         final_score = score (transform pdo_t (score_to_pd i)),
         score_band = band (transform pdo_t (score_to_pd i)),
         reasoning = llm_result.reasoning llm, crb_metrics = metrics,
         base_result = base, model_target = target\<rparr>"
    by (simp add: compute_hybrid_score_def Let_def llm base_def metrics_def c_def i_def)
  then show ?thesis
    using b cr adj pd transform_score_range [of pdo_t "score_to_pd i"]
    by (simp add: transform_pd)
qed

theorem hybrid_score_ranges_witness:
  "\<exists>r. compute_hybrid_score day0 default_pdo CallRaises 1 [] None 180 ''champion'' = Inr r
     \<and> HybridScoreResult.base_score r = 422.86
     \<and> HybridScoreResult.crb_contribution r = 0
     \<and> llm_adjustment r = 0
     \<and> 300 \<le> final_score r \<and> final_score r \<le> 850
     \<and> 0 < HybridScoreResult.pd_probability r \<and> HybridScoreResult.pd_probability r < 1"
proof -
  obtain r where r: "compute_hybrid_score day0 default_pdo CallRaises 1 [] None 180 ''champion'' = Inr r"
    and rest: "300 \<le> final_score r" "final_score r \<le> 850"
      "0 < HybridScoreResult.pd_probability r" "HybridScoreResult.pd_probability r < 1"
    using hybrid_score_ranges [of day0 default_pdo CallRaises 1 "[]" None 180 "''champion''"]
    by blast
  have "HybridScoreResult.base_score r = 422.86
      \<and> HybridScoreResult.crb_contribution r = 0 \<and> llm_adjustment r = 0"
    using r
    by (auto simp: compute_hybrid_score_def Let_def get_score_adjustment_def
        adjustment_body_def is_Exception_def fallback_def truthy_def base_score_Nil)
  then show ?thesis using r rest by simp
qed

section \<open>Transformer: doubling the odds\<close>

lemma py_round_diff:
  "\<bar>real_of_int (py_round a - py_round b) - (a - b)\<bar> \<le> 1"
  using py_round_lower [of a] py_round_upper [of a] py_round_lower [of b] py_round_upper [of b]
  by (simp add: abs_le_iff)

lemma new_PDOTransformer_fields:
  assumes "new_PDOTransformer p bs bo = Inr t"
  shows "0 < bo" and "pdo t = p" and "PDOTransformer.factor t = p / ln 2"
    and "PDOTransformer.offset t = bs - p / ln 2 * ln bo"
  using assms
  by (auto simp: new_PDOTransformer_def py_log_def Let_def split: if_splits)

lemma raw_score_doubled:
  assumes t: "new_PDOTransformer p bs bo = Inr t"
    and q: "pd_clamp q = q" and q2: "pd_clamp q2 = q2"
    and dbl: "q2 / (1 - q2) = 2 * (q / (1 - q))"
  shows "raw_score t q - raw_score t q2 = p"
proof -
  have "1 / 10000 \<le> q" "q \<le> 9999 / 10000"
    using q unfolding pd_clamp_def by linarith+
  then have odds: "0 < q / (1 - q)" by simp
  have ln2: "ln (2::real) \<noteq> 0" by simp
  have "ln (2 * (q / (1 - q))) = ln 2 + ln (q / (1 - q))"
    by (rule ln_mult_pos [OF _ odds]) simp
  then have "ln (q2 / (1 - q2)) = ln 2 + ln (q / (1 - q))"
    by (simp only: dbl)
  then have "raw_score t q - raw_score t q2 = PDOTransformer.factor t * ln 2"
    by (simp add: raw_score_def Let_def q q2 algebra_simps)
  also have "\<dots> = p"
    using ln2 by (simp add: new_PDOTransformer_fields(3) [OF t])
  finally show ?thesis .
qed

lemma score_unclamped:
  assumes "300 \<le> py_round (raw_score t q)" and "py_round (raw_score t q) \<le> 850"
  shows "score (transform t q) = py_round (raw_score t q)"
  using assms by (simp add: transform_def Let_def)

lemma raw_score_half:
  assumes t: "new_PDOTransformer p 500 1 = Inr t"
  shows "raw_score t (1 / 2) = 500"
  by (simp add: raw_score_def Let_def pd_clamp_def
      new_PDOTransformer_fields(3,4) [OF t])

lemma half_maps_to_base:
  assumes t: "new_PDOTransformer p 500 1 = Inr t"
  shows "score (transform t (1 / 2)) = 500"
  by (simp add: transform_def Let_def raw_score_half [OF t] py_round_of_int [of 500, simplified])

text \<open>
  C2. For a transformer built by the constructor, a probability \<open>q\<close> and the probability
  \<open>q2\<close> whose odds are twice those of \<open>q\<close>, both in the unclamped region (neither
  probability is changed by the clamp to [0.0001, 0.9999], neither rounded score by the
  clamp to [300, 850]), the two scores differ by \<open>pdo\<close> up to a tolerance of 3; and with
  base score 500 and base odds 1 the score of probability 0.5 is within 2 of 500.
\<close>

theorem doubling_odds_drops_pdo:
  assumes t: "new_PDOTransformer p bs bo = Inr t"
  shows "(pd_clamp q = q \<and> pd_clamp q2 = q2
          \<and> q2 / (1 - q2) = 2 * (q / (1 - q))
          \<and> 300 \<le> py_round (raw_score t q) \<and> py_round (raw_score t q) \<le> 850
          \<and> 300 \<le> py_round (raw_score t q2) \<and> py_round (raw_score t q2) \<le> 850
          \<longrightarrow> \<bar>real_of_int (score (transform t q) - score (transform t q2)) - pdo t\<bar> \<le> 3)
         \<and> (bs = 500 \<and> bo = 1 \<longrightarrow> \<bar>score (transform t (1 / 2)) - 500\<bar> \<le> 2)"
proof (intro conjI impI)
  assume h: "pd_clamp q = q \<and> pd_clamp q2 = q2
          \<and> q2 / (1 - q2) = 2 * (q / (1 - q))
          \<and> 300 \<le> py_round (raw_score t q) \<and> py_round (raw_score t q) \<le> 850
          \<and> 300 \<le> py_round (raw_score t q2) \<and> py_round (raw_score t q2) \<le> 850"
  then have q: "pd_clamp q = q" and q2: "pd_clamp q2 = q2"
    and dbl: "q2 / (1 - q2) = 2 * (q / (1 - q))"
    and s1: "300 \<le> py_round (raw_score t q)" "py_round (raw_score t q) \<le> 850"
    and s2: "300 \<le> py_round (raw_score t q2)" "py_round (raw_score t q2) \<le> 850"
    by simp_all
  have "\<bar>real_of_int (py_round (raw_score t q) - py_round (raw_score t q2))
          - (raw_score t q - raw_score t q2)\<bar> \<le> 1"
    by (rule py_round_diff)
  then show "\<bar>real_of_int (score (transform t q) - score (transform t q2)) - pdo t\<bar> \<le> 3"
    by (simp add: score_unclamped [OF s1] score_unclamped [OF s2]
        raw_score_doubled [OF t q q2 dbl] new_PDOTransformer_fields(2) [OF t])
next
  assume "bs = 500 \<and> bo = 1"
  then have "score (transform t (1 / 2)) = 500"
    using t half_maps_to_base by blast
  then show "\<bar>score (transform t (1 / 2)) - 500\<bar> \<le> 2" by simp
qed

lemma raw_score_two_thirds: "raw_score default_pdo (2 / 3) = 450"
proof -
  have "ln (2::real) \<noteq> 0" by simp
  then show ?thesis
    by (simp add: raw_score_def Let_def pd_clamp_def default_pdo_def)
qed

theorem doubling_odds_drops_pdo_witness:
  "new_PDOTransformer 50 500 1 = Inr default_pdo
   \<and> pd_clamp (1 / 2) = 1 / 2 \<and> pd_clamp (2 / 3) = 2 / 3
   \<and> py_round (raw_score default_pdo (1 / 2)) = 500
   \<and> py_round (raw_score default_pdo (2 / 3)) = 450
   \<and> \<bar>real_of_int (score (transform default_pdo (1 / 2))
                      - score (transform default_pdo (2 / 3))) - pdo default_pdo\<bar> \<le> 3
   \<and> \<bar>score (transform default_pdo (1 / 2)) - 500\<bar> \<le> 2"
proof -
  have t: "new_PDOTransformer 50 500 1 = Inr default_pdo"
    by (rule new_default_pdo)
  have q: "pd_clamp (1 / 2) = 1 / 2" and q2: "pd_clamp (2 / 3) = 2 / 3"
    by (simp_all add: pd_clamp_def)
  have dbl: "(2 / 3) / (1 - 2 / 3) = 2 * ((1 / 2) / (1 - 1 / 2 :: real))"
    by simp
  have r1: "py_round (raw_score default_pdo (1 / 2)) = 500"
    using py_round_of_int [of 500] by (simp add: raw_score_half [OF t])
  have r2: "py_round (raw_score default_pdo (2 / 3)) = 450"
    using py_round_of_int [of 450] by (simp add: raw_score_two_thirds)
  have s1: "300 \<le> py_round (raw_score default_pdo (1 / 2))"
    "py_round (raw_score default_pdo (1 / 2)) \<le> 850"
    by (simp_all add: r1)
  have s2: "300 \<le> py_round (raw_score default_pdo (2 / 3))"
    "py_round (raw_score default_pdo (2 / 3)) \<le> 850"
    by (simp_all add: r2)
  show ?thesis
    using doubling_odds_drops_pdo [OF t, of "1 / 2" "2 / 3"] t q q2 dbl r1 r2 by simp
qed

section \<open>From the intermediate score to the probability of default\<close>








lemma round_nd_lower: "x - 1 / (2 * 10 ^ n) \<le> round_nd x n"
proof -
  define k :: real where "k = 10 ^ n"
  have k: "0 < k" by (simp add: k_def)
  have "(x * k - 1 / 2) / k \<le> of_int (py_round (x * k)) / k"
    using py_round_lower [of "x * k"] k by (simp only: divide_right_mono less_imp_le)
  moreover have "(x * k - 1 / 2) / k = x - 1 / (2 * k)"
    using k by (simp add: field_simps)
  ultimately show ?thesis by (simp add: round_nd_def k_def)
qed

lemma round_nd_upper: "round_nd x n \<le> x + 1 / (2 * 10 ^ n)"
proof -
  define k :: real where "k = 10 ^ n"
  have k: "0 < k" by (simp add: k_def)
  have "of_int (py_round (x * k)) / k \<le> (x * k + 1 / 2) / k"
    using py_round_upper [of "x * k"] k by (simp only: divide_right_mono less_imp_le)
  moreover have "(x * k + 1 / 2) / k = x + 1 / (2 * k)"
    using k by (simp add: field_simps)
  ultimately show ?thesis by (simp add: round_nd_def k_def)
qed





section \<open>Transformer: the inverse\<close>

lemma sigma_logit:
  assumes "0 < q" and "q < 1"
  shows "sigma (ln (q / (1 - q))) = q"
proof -
  have "0 < q / (1 - q)" using assms by simp
  then have "exp (ln (q / (1 - q))) = q / (1 - q)" by simp
  then show ?thesis
    unfolding sigma_def using assms by (simp add: field_simps)
qed

lemma sigma_mono:
  assumes "u \<le> v"
  shows "sigma u \<le> sigma v"
proof -
  define a where "a = exp u"
  define b where "b = exp v"
  have ab: "a \<le> b" "0 < a" "0 < b" using assms by (simp_all add: a_def b_def)
  have "a * (1 + b) \<le> b * (1 + a)" using ab by (simp add: algebra_simps)
  then have "a / (1 + a) \<le> b / (1 + b)"
    using ab by (simp add: frac_le_eq add_pos_pos field_simps)
  then show ?thesis by (simp add: sigma_def a_def b_def)
qed

lemma sigma_step:
  assumes "u \<le> v"
  shows "sigma v - sigma u \<le> exp (v - u) - 1"
proof -
  define a where "a = exp u"
  define D where "D = exp (v - u)"
  have a: "0 < a" by (simp add: a_def)
  have D: "1 \<le> D" using assms by (simp add: D_def)
  have ev: "exp v = a * D" by (simp add: a_def D_def exp_diff)
  have nz: "1 + a * D \<noteq> 0" "1 + a \<noteq> 0"
    using a D by (simp_all add: add_pos_pos less_imp_neq [symmetric])
  have "a * D / (1 + a * D) - a / (1 + a)
      = (a * D * (1 + a) - a * (1 + a * D)) / ((1 + a * D) * (1 + a))"
    using nz by (rule diff_frac_eq)
  also have "a * D * (1 + a) - a * (1 + a * D) = a * (D - 1)"
    by (simp add: algebra_simps)
  finally have eq: "sigma v - sigma u = a * (D - 1) / ((1 + a * D) * (1 + a))"
    by (simp add: sigma_def ev a_def)
  have den: "0 < (1 + a * D) * (1 + a)" using a D by (simp add: add_pos_pos)
  have "a \<le> (1 + a * D) * (1 + a)"
  proof -
    have nn: "0 \<le> a * D * (1 + a)" using a D by simp
    have "(1 + a * D) * (1 + a) = (1 + a) + a * D * (1 + a)"
      by (simp add: algebra_simps)
    then show ?thesis using nn a by linarith
  qed
  then have "a * (D - 1) \<le> (1 + a * D) * (1 + a) * (D - 1)"
    using D by (intro mult_right_mono) simp_all
  then have "a * (D - 1) / ((1 + a * D) * (1 + a)) \<le> D - 1"
    using den by (simp add: pos_divide_le_eq mult.commute)
  then show ?thesis by (simp add: eq D_def)
qed

lemma sigma_close:
  assumes "\<bar>u - v\<bar> \<le> 1 / 100"
  shows "\<bar>sigma u - sigma v\<bar> \<le> 101 / 10000"
proof -
  have bound: "exp d - 1 \<le> 101 / 10000" if "0 \<le> d" "d \<le> 1 / 100" for d :: real
  proof -
    have "exp d \<le> 1 + d + d\<^sup>2" using that by (intro exp_bound) simp_all
    moreover have "d\<^sup>2 \<le> (1 / 100)\<^sup>2" using that by (intro power_mono) simp_all
    ultimately show ?thesis using that by (simp add: power2_eq_square)
  qed
  show ?thesis
  proof (cases "u \<le> v")
    case True
    then have "0 \<le> sigma v - sigma u" using sigma_mono by simp
    moreover have "sigma v - sigma u \<le> exp (v - u) - 1" using True by (rule sigma_step)
    moreover have "exp (v - u) - 1 \<le> 101 / 10000" using True assms by (intro bound) simp_all
    ultimately show ?thesis by simp
  next
    case False
    then have vu: "v \<le> u" by simp
    then have "0 \<le> sigma u - sigma v" using sigma_mono by simp
    moreover have "sigma u - sigma v \<le> exp (u - v) - 1" using vu by (rule sigma_step)
    moreover have "exp (u - v) - 1 \<le> 101 / 10000" using vu assms by (intro bound) simp_all
    ultimately show ?thesis by simp
  qed
qed

lemma ln2_bounds: "0 < ln (2::real)" "ln (2::real) < 1"
  using ln_2_less_1 by simp_all

lemma pd_from_default:
  "pd_from_score default_pdo s = Inr (round_nd (sigma ((500 - real_of_int s) * ln 2 / 50)) 6)"
proof -
  have "ln (2::real) \<noteq> 0" by simp
  then show ?thesis
    by (simp add: pd_from_score_def default_pdo_def sigma_def Let_def)
qed

lemma pd_clamp_range: "1 / 10000 \<le> pd_clamp p" "pd_clamp p \<le> 9999 / 10000"
  by (simp_all add: pd_clamp_def)

lemma raw_default:
  "raw_score default_pdo p = 500 - 50 / ln 2 * logit (pd_clamp p)"
  by (simp add: raw_score_def default_pdo_def Let_def logit_def)

lemma logit_of_raw:
  "(500 - raw_score default_pdo p) * ln 2 / 50 = logit (pd_clamp p)"
proof -
  have "ln (2::real) \<noteq> 0" by simp
  then show ?thesis by (simp add: raw_default)
qed

lemma sigma_logit_clamp: "sigma (logit (pd_clamp p)) = pd_clamp p"
  unfolding logit_def using pd_clamp_range [of p] by (intro sigma_logit) simp_all

text \<open>The score is not clamped: the inverse undoes the transformer up to the roundings.\<close>

lemma recover_unclamped:
  fixes n :: int
  assumes "n = py_round (raw_score default_pdo p)"
  shows "\<bar>round_nd (sigma ((500 - real_of_int n) * ln 2 / 50)) 6 - pd_clamp p\<bar> \<le> 102 / 10000"
proof -
  define r where "r = raw_score default_pdo p"
  define u where "u = (500 - real_of_int n) * ln 2 / 50"
  have rn: "\<bar>r - real_of_int n\<bar> \<le> 1 / 2"
    using py_round_lower [of r] py_round_upper [of r] assms unfolding r_def by linarith
  define c :: real where "c = ln 2 / 50"
  have c: "0 < c" "c \<le> 1 / 50" using ln2_bounds by (simp_all add: c_def)
  have d: "u - logit (pd_clamp p) = (r - real_of_int n) * c"
    unfolding u_def r_def c_def logit_of_raw [symmetric] by (simp add: field_simps)
  have "\<bar>u - logit (pd_clamp p)\<bar> = \<bar>r - real_of_int n\<bar> * c"
    unfolding d using c by (simp add: abs_mult)
  also have "\<dots> \<le> 1 / 2 * (1 / 50)"
    using rn c by (intro mult_mono) simp_all
  finally have "\<bar>u - logit (pd_clamp p)\<bar> \<le> 1 / 100" by simp
  then have "\<bar>sigma u - sigma (logit (pd_clamp p))\<bar> \<le> 101 / 10000"
    by (rule sigma_close)
  then have "\<bar>sigma u - pd_clamp p\<bar> \<le> 101 / 10000"
    by (simp add: sigma_logit_clamp)
  moreover have "round_nd (sigma u) 6 - sigma u \<le> 1 / 2000000"
    using round_nd_upper [of "sigma u" 6] by simp
  moreover have "sigma u - round_nd (sigma u) 6 \<le> 1 / 2000000"
    using round_nd_lower [of "sigma u" 6] by simp
  ultimately show ?thesis unfolding u_def by linarith
qed

lemma exp_7_ln2: "exp (7 * ln (2::real)) = 128"
  using exp_of_nat_mult [of 7 "ln (2::real)"] by simp

lemma exp_4_ln2: "exp (4 * ln (2::real)) = 16"
  using exp_of_nat_mult [of 4 "ln (2::real)"] by simp

lemma pd_from_850: "pd_from_score default_pdo 850 = Inr (round_nd (1 / 129) 6)"
proof -
  have e: "(500 - real_of_int 850) * ln 2 / 50 = - (7 * ln 2)" by simp
  have "sigma (- (7 * ln 2)) = 1 / 129"
    by (simp add: sigma_def exp_minus exp_7_ln2)
  then show ?thesis by (simp only: pd_from_default e)
qed

lemma pd_from_300: "pd_from_score default_pdo 300 = Inr (round_nd (16 / 17) 6)"
proof -
  have e: "(500 - real_of_int 300) * ln 2 / 50 = 4 * ln 2" by simp
  have "sigma (4 * ln 2) = 16 / 17"
    by (simp add: sigma_def exp_4_ln2)
  then show ?thesis by (simp only: pd_from_default e)
qed

lemma round_1_129: "round_nd (1 / 129) 6 = 7752 / 1000000"
  by (simp add: round_nd_def py_round_def)

lemma round_16_17: "round_nd (16 / 17) 6 = 941176 / 1000000"
  by (simp add: round_nd_def py_round_def)

lemma exp_logit_clamp: "exp (logit (pd_clamp p)) = pd_clamp p / (1 - pd_clamp p)"
  unfolding logit_def using pd_clamp_range [of p] by simp

lemma high_score_small_pd:
  assumes "850 \<le> raw_score default_pdo p"
  shows "pd_clamp p \<le> 1 / 129"
proof -
  define q where "q = pd_clamp p"
  have q: "1 / 10000 \<le> q" "q \<le> 9999 / 10000" using pd_clamp_range [of p] by (simp_all add: q_def)
  have "(500 - raw_score default_pdo p) * (ln 2 / 50) \<le> (500 - 850) * (ln 2 / 50)"
    using assms ln2_bounds by (intro mult_right_mono) simp_all
  then have "logit q \<le> - (7 * ln 2)"
    using logit_of_raw [of p] by (simp add: q_def)
  then have "exp (logit q) \<le> exp (- (7 * ln 2))" by (simp only: exp_le_cancel_iff)
  then have "q / (1 - q) \<le> 1 / 128"
    by (simp add: exp_logit_clamp q_def exp_minus exp_7_ln2)
  then show ?thesis
    unfolding q_def [symmetric] using q by (simp add: field_simps)
qed

lemma low_score_large_pd:
  assumes "raw_score default_pdo p \<le> 300"
  shows "16 / 17 \<le> pd_clamp p"
proof -
  define q where "q = pd_clamp p"
  have q: "1 / 10000 \<le> q" "q \<le> 9999 / 10000" using pd_clamp_range [of p] by (simp_all add: q_def)
  have "(500 - 300) * (ln 2 / 50) \<le> (500 - raw_score default_pdo p) * (ln 2 / 50)"
    using assms ln2_bounds by (intro mult_right_mono) simp_all
  then have "4 * ln 2 \<le> logit q"
    using logit_of_raw [of p] by (simp add: q_def)
  then have "exp (4 * ln 2) \<le> exp (logit q)" by (simp only: exp_le_cancel_iff)
  then have "16 \<le> q / (1 - q)"
    by (simp add: exp_logit_clamp q_def exp_4_ln2)
  then show ?thesis
    unfolding q_def [symmetric] using q by (simp add: field_simps)
qed

lemma score_default:
  "score (transform default_pdo p) = max 300 (min 850 (py_round (raw_score default_pdo p)))"
  by (simp add: transform_def Let_def)

lemma recovers_within:
  assumes p0: "0 \<le> p" and p1: "p \<le> 991 / 1000"
  shows "\<exists>r. pd_from_score default_pdo (score (transform default_pdo p)) = Inr r
             \<and> \<bar>r - p\<bar> < 5 / 100"
proof -
  define q where "q = pd_clamp p"
  define raw where "raw = raw_score default_pdo p"
  define n where "n = py_round raw"
  have qp: "p \<le> q" "q - p \<le> 1 / 10000" "1 / 10000 \<le> p \<Longrightarrow> q = p"
    using p0 p1 by (simp_all add: q_def pd_clamp_def)
  have rn: "raw - 1 / 2 \<le> real_of_int n" "real_of_int n \<le> raw + 1 / 2"
    unfolding n_def by (rule py_round_lower, rule py_round_upper)
  consider (low) "n < 300" | (high) "850 < n" | (mid) "300 \<le> n" "n \<le> 850"
    by linarith
  then show ?thesis
  proof cases
    case low
    then have "real_of_int n \<le> 299" by linarith
    then have "raw \<le> 300" using rn by linarith
    then have big: "16 / 17 \<le> q"
      unfolding raw_def q_def by (rule low_score_large_pd)
    then have "q = p" using qp(3) p0 by (cases "1 / 10000 \<le> p") (simp_all add: q_def pd_clamp_def)
    then have p: "16 / 17 \<le> p" using big by simp
    have "score (transform default_pdo p) = 300"
      using low by (simp add: score_default raw_def [symmetric] n_def [symmetric])
    then have "pd_from_score default_pdo (score (transform default_pdo p))
        = Inr (941176 / 1000000)"
      by (simp only: pd_from_300 round_16_17)
    moreover have "\<bar>941176 / 1000000 - p\<bar> < 5 / 100"
      using p p1 by (simp add: abs_less_iff)
    ultimately show ?thesis by blast
  next
    case high
    then have "851 \<le> real_of_int n" by linarith
    then have "850 \<le> raw" using rn by linarith
    then have small: "q \<le> 1 / 129"
      unfolding raw_def q_def by (rule high_score_small_pd)
    have "score (transform default_pdo p) = 850"
      using high by (simp add: score_default raw_def [symmetric] n_def [symmetric])
    then have "pd_from_score default_pdo (score (transform default_pdo p))
        = Inr (7752 / 1000000)"
      by (simp only: pd_from_850 round_1_129)
    moreover have "\<bar>7752 / 1000000 - p\<bar> < 5 / 100"
      using small qp(1) p0 by (simp add: abs_less_iff)
    ultimately show ?thesis by blast
  next
    case mid
    then have sc: "score (transform default_pdo p) = n"
      by (simp add: score_default raw_def [symmetric] n_def [symmetric])
    have "\<bar>round_nd (sigma ((500 - real_of_int n) * ln 2 / 50)) 6 - q\<bar> \<le> 102 / 10000"
      unfolding q_def by (rule recover_unclamped) (simp add: n_def raw_def)
    then have "\<bar>round_nd (sigma ((500 - real_of_int n) * ln 2 / 50)) 6 - p\<bar> < 5 / 100"
      using qp(1,2) by linarith
    then show ?thesis
      by (simp only: sc pd_from_default) blast
  qed
qed

text \<open>
  C6, as the claim states it, fails: the probability 0.9999 gets the clamped score 300,
  which the inverse maps to 0.941176, more than 0.05 away.
\<close>

theorem inverse_of_clamped_score_counterexample:
  "score (transform default_pdo (9999 / 10000)) = 300
   \<and> pd_from_score default_pdo (score (transform default_pdo (9999 / 10000)))
       = Inr (941176 / 1000000)
   \<and> \<not> \<bar>941176 / 1000000 - 9999 / 10000\<bar> < (5 / 100 :: real)"
proof -
  have "16 \<le> (9999::real)" by simp
  then have "ln (16::real) \<le> ln 9999" by simp
  moreover have "ln (16::real) = 4 * ln 2"
    using ln_realpow [of 2 4] by simp
  ultimately have l: "4 * ln 2 \<le> ln (9999::real)" by simp
  have "50 / ln 2 * (4 * ln 2) \<le> 50 / ln 2 * ln (9999::real)"
    using l ln2_bounds by (intro mult_left_mono) simp_all
  moreover have "50 / ln 2 * (4 * ln (2::real)) = 200"
    using ln2_bounds by simp
  ultimately have "raw_score default_pdo (9999 / 10000) \<le> 300"
    by (simp add: raw_default logit_def pd_clamp_def)
  then have "py_round (raw_score default_pdo (9999 / 10000)) \<le> py_round 300"
    by (rule py_round_mono)
  then have "py_round (raw_score default_pdo (9999 / 10000)) \<le> 300"
    using py_round_of_int [of 300] by simp
  then have s: "score (transform default_pdo (9999 / 10000)) = 300"
    by (simp add: score_default)
  show ?thesis
    by (simp only: s pd_from_300 round_16_17) simp
qed

text \<open>
  C6, amended. With the default transformer (pdo 50, base score 500, base odds 1), for
  every probability of default between 0 and 0.991, \<open>pd_from_score\<close> of the score of
  \<open>transform\<close> returns a value less than 0.05 away from the probability.
\<close>

theorem inverse_recovers_pd:
  assumes "0 \<le> p" and "p \<le> 991 / 1000"
  shows "new_PDOTransformer 50 500 1 = Inr default_pdo
         \<and> (\<exists>r. pd_from_score default_pdo (score (transform default_pdo p)) = Inr r
                \<and> \<bar>r - p\<bar> < 5 / 100)"
  using recovers_within [OF assms] new_default_pdo by simp

theorem inverse_recovers_pd_witness:
  "(0::real) \<le> 1 / 4 \<and> (1 / 4 :: real) \<le> 991 / 1000
   \<and> (\<exists>r. pd_from_score default_pdo (score (transform default_pdo (1 / 4))) = Inr r
          \<and> \<bar>r - 1 / 4\<bar> < 5 / 100)"
  using inverse_recovers_pd [of "1 / 4"] by simp

section \<open>The scorers on sample inputs\<close>

lemma sample_report_metrics:
  "bureau_score_pts (extract_crb_metrics sample_report) = 83.33"
  "npa_pts (extract_crb_metrics sample_report) = 30"
  "default_pts (extract_crb_metrics sample_report) = 20"
  "CrbMetrics.crb_contribution (extract_crb_metrics sample_report) = 133.33"
  by code_simp+

lemma sample_groups:
  "group_loop (tx_window day0 180 sample_transactions) =
     \<lparr>monthly_credits = [((2025, 2), 50000), ((2025, 1), 50000)],
      monthly_debits = [((2025, 2), 10000)],
      category_totals = [(''RENT'', 10000)],
      negative_balance_events = 0\<rparr>"
  by code_simp

lemma sample_window:
  "tx_window day0 180 sample_transactions =
     [(\<lparr>year = 2025, month = 2, day = 25\<rparr>,
       \<lparr>transaction_date = Some \<lparr>year = 2025, month = 2, day = 25\<rparr>, amount = Some 50000,
        transaction_type = Some ''credit'', category = Some ''SALARY'',
        balance_after = Some 60000\<rparr>),
      (\<lparr>year = 2025, month = 2, day = 26\<rparr>,
       \<lparr>transaction_date = Some \<lparr>year = 2025, month = 2, day = 26\<rparr>, amount = Some 10000,
        transaction_type = Some ''DEBIT'', category = Some ''RENT'',
        balance_after = Some 50000\<rparr>),
      (\<lparr>year = 2025, month = 1, day = 25\<rparr>,
       \<lparr>transaction_date = Some \<lparr>year = 2025, month = 1, day = 25\<rparr>, amount = Some 50000,
        transaction_type = Some ''CREDIT'', category = Some ''SALARY'',
        balance_after = Some 45000\<rparr>)]"
  by code_simp

lemma sample_stdev: "stdev [50000, 50000] = 0"
  by (simp add: stdev_def mean_def)

lemma sample_base:
  "base_total (calculate_base_score day0 sample_transactions 180) = 585.71"
  "income_cv (calculate_base_score day0 sample_transactions 180) = 0"
  "low_balance_events (calculate_base_score day0 sample_transactions 180) = 0"
  "category_breakdown (calculate_base_score day0 sample_transactions 180) = [(''RENT'', 100)]"
  unfolding calculate_base_score_def Let_def sample_groups
  by (simp_all add: sample_window mean_def sample_stdev stability_points_def
      income_points_def savings_points_def low_balance_points_def diversity_points_def
      round_nd_def py_round_def)

end
